theory Spec2Isabelle
  imports Complex_Main "HOL-Library.AList"
begin

section \<open>Python values used by the bot\<close>

text \<open>
  The bot (\<^verbatim>\<open>k_python_2dda.py\<close>) and its storage module (\<^verbatim>\<open>_python_2.py\<close>) are
  Python 3. Python integers are unbounded and are modelled by \<^typ>\<open>int\<close>. A Python
  \<^verbatim>\<open>str\<close> is modelled by \<^typ>\<open>string\<close>, each \<^typ>\<open>char\<close> standing for one code
  point below 256; the string predicates below are Python's, restricted to that range.
  Exceptions are values: a function that can raise returns \<open>exn + 'a\<close>, with \<open>Inl\<close>
  for the raised exception.
\<close>

datatype exn =
    ValueError | TypeError | KeyError | AttributeError | OverflowError
  | ClientError | TimeoutError | CancelledError

text \<open>
  \<^verbatim>\<open>except Exception\<close> catches every class derived from \<^verbatim>\<open>Exception\<close>.
  \<^verbatim>\<open>asyncio.CancelledError\<close> derives from \<^verbatim>\<open>BaseException\<close> only and passes
  through such a handler.
\<close>

fun is_Exception :: "exn \<Rightarrow> bool" where
  "is_Exception CancelledError = False"
| "is_Exception _ = True"

subsection \<open>Strings\<close>

definition code_point :: "char \<Rightarrow> nat" where
  "code_point c = of_char c"

text \<open>\<^verbatim>\<open>str.isspace\<close> on the code points below 256.\<close>

definition py_isspace :: "char \<Rightarrow> bool" where
  "py_isspace c = (code_point c \<in> set [9, 10, 11, 12, 13, 28, 29, 30, 31, 32, 133, 160])"

text \<open>The ten decimal digits \<^verbatim>\<open>0\<close> to \<^verbatim>\<open>9\<close>, and their values.\<close>

definition is_decimal :: "char \<Rightarrow> bool" where
  "is_decimal c = (48 \<le> code_point c \<and> code_point c \<le> 57)"

definition digit_value :: "char \<Rightarrow> nat" where
  "digit_value c = code_point c - 48"

text \<open>
  \<^verbatim>\<open>str.isdigit\<close> holds of a character whose Unicode numeric type is Digit or Decimal:
  below 256 these are the decimal digits and the superscripts two, three and one
  (code points 178, 179 and 185). On a string it asks for at least one character.
\<close>

definition isdigit_char :: "char \<Rightarrow> bool" where
  "isdigit_char c = (is_decimal c \<or> code_point c \<in> set [178, 179, 185])"

definition py_isdigit :: "string \<Rightarrow> bool" where
  "py_isdigit s = (s \<noteq> [] \<and> list_all isdigit_char s)"

text \<open>\<^verbatim>\<open>s.strip()\<close> and \<^verbatim>\<open>s.rstrip("/")\<close>.\<close>

definition py_strip :: "string \<Rightarrow> string" where
  "py_strip s = rev (dropWhile py_isspace (rev (dropWhile py_isspace s)))"

definition rstrip_slash :: "string \<Rightarrow> string" where
  "rstrip_slash s = rev (dropWhile (\<lambda>c. c = CHR ''/'') (rev s))"

text \<open>\<^verbatim>\<open>sub in s\<close>: \<open>sub\<close> occurs in \<open>s\<close> as a contiguous substring.\<close>

fun py_in :: "string \<Rightarrow> string \<Rightarrow> bool" where
  "py_in sub [] = (sub = [])"
| "py_in sub (c # cs) = (take (length sub) (c # cs) = sub \<or> py_in sub cs)"

text \<open>\<^verbatim>\<open>s.split("/")[-1]\<close>: what follows the last slash, all of \<open>s\<close> when it has none.\<close>

definition last_segment :: "string \<Rightarrow> string" where
  "last_segment s = rev (takeWhile (\<lambda>c. c \<noteq> CHR ''/'') (rev s))"

text \<open>
  \<^verbatim>\<open>int(s)\<close> on a string: surrounding whitespace is dropped, one sign is allowed, and
  the rest is decimal digits, single underscores allowed between two digits. Anything
  else raises \<^verbatim>\<open>ValueError\<close>, here \<open>None\<close>. The whitespace of \<^verbatim>\<open>int\<close> is
  narrower than that of \<^verbatim>\<open>strip\<close>: the separators 28 to 31 are not skipped, so
  \<^verbatim>\<open>int('\x1c5')\<close> raises. The value is the mathematical one: the limit of 4300
  digits that Python 3.11 puts on the conversion is not modelled (a Telegram message is
  shorter).
\<close>

definition int_isspace :: "char \<Rightarrow> bool" where
  "int_isspace c = (code_point c \<in> set [9, 10, 11, 12, 13, 32, 133, 160])"

definition int_strip :: "string \<Rightarrow> string" where
  "int_strip s = rev (dropWhile int_isspace (rev (dropWhile int_isspace s)))"

fun parse_digits :: "nat \<Rightarrow> string \<Rightarrow> nat option" where
  "parse_digits acc [] = Some acc"
| "parse_digits acc (c # cs) =
     (if is_decimal c then parse_digits (acc * 10 + digit_value c) cs
      else if c = CHR ''_'' then
        (case cs of
           [] \<Rightarrow> None
         | d # _ \<Rightarrow> if is_decimal d then parse_digits acc cs else None)
      else None)"

definition parse_unsigned :: "string \<Rightarrow> int option" where
  "parse_unsigned s =
     (case s of
        [] \<Rightarrow> None
      | c # _ \<Rightarrow> if is_decimal c then map_option int (parse_digits 0 s) else None)"

definition py_int :: "string \<Rightarrow> int option" where
  "py_int s =
     (case int_strip s of
        [] \<Rightarrow> None
      | c # cs \<Rightarrow>
          if c = CHR ''-'' then map_option uminus (parse_unsigned cs)
          else if c = CHR ''+'' then parse_unsigned cs
          else parse_unsigned (c # cs))"

subsection \<open>JSON values\<close>

text \<open>
  What \<^verbatim>\<open>await r.json()\<close> returns. An object keeps its items in order, with distinct
  keys. A number with a fraction or exponent is a float: \<open>JReal\<close> holds the rational
  value of a finite one, \<open>JNaN\<close> and \<open>JInf\<close> are the values that Python's decoder
  gives to \<^verbatim>\<open>NaN\<close> and to \<^verbatim>\<open>Infinity\<close> of either sign.
\<close>

datatype json =
    JNull | JBool bool | JInt int | JReal rat | JNaN | JInf | JStr string
  | JArr "json list" | JObj "(string \<times> json) list"

text \<open>\<^verbatim>\<open>d.get(k, default)\<close>; on anything but a dict the attribute is missing.\<close>

fun json_get :: "json \<Rightarrow> string \<Rightarrow> json \<Rightarrow> exn + json" where
  "json_get (JObj kvs) k dflt = Inr (case map_of kvs k of None \<Rightarrow> dflt | Some v \<Rightarrow> v)"
| "json_get _ k dflt = Inl AttributeError"

text \<open>
  \<^verbatim>\<open>d[k]\<close> with a string key: \<^verbatim>\<open>KeyError\<close> on a dict without the key,
  \<^verbatim>\<open>TypeError\<close> on a list, a string or a value that cannot be subscripted.
\<close>

fun json_item :: "json \<Rightarrow> string \<Rightarrow> exn + json" where
  "json_item (JObj kvs) k = (case map_of kvs k of None \<Rightarrow> Inl KeyError | Some v \<Rightarrow> Inr v)"
| "json_item _ k = Inl TypeError"

text \<open>\<^verbatim>\<open>v == 1\<close>: Python compares numbers by value, and \<^verbatim>\<open>True == 1\<close>.\<close>

fun json_eq_1 :: "json \<Rightarrow> bool" where
  "json_eq_1 (JInt n) = (n = 1)"
| "json_eq_1 (JReal r) = (r = 1)"
| "json_eq_1 (JBool b) = b"
| "json_eq_1 _ = False"

text \<open>
  \<^verbatim>\<open>int(v)\<close>: a finite float is truncated towards zero, a string is parsed.
\<close>

fun json_int :: "json \<Rightarrow> exn + int" where
  "json_int (JInt n) = Inr n"
| "json_int (JBool b) = Inr (if b then 1 else 0)"
| "json_int (JReal r) = Inr (if r < 0 then \<lceil>r\<rceil> else \<lfloor>r\<rfloor>)"
| "json_int JNaN = Inl ValueError"
| "json_int JInf = Inl OverflowError"
| "json_int (JStr s) = (case py_int s of None \<Rightarrow> Inl ValueError | Some n \<Rightarrow> Inr n)"
| "json_int _ = Inl TypeError"

section \<open>Identity resolver\<close>

text \<open>\<^verbatim>\<open>steam64_to_account_id\<close>.\<close>

definition steam64_to_account_id :: "int \<Rightarrow> int" where
  "steam64_to_account_id steam64 = steam64 - 76561197960265728"

text \<open>
  What the request to Steam's \<^verbatim>\<open>ResolveVanityURL\<close> does: the connection fails, the
  ten seconds pass, the task is cancelled while it waits, or a response arrives with a
  status and a body that \<^verbatim>\<open>r.json()\<close> decodes or refuses.
\<close>

datatype http_body = BadBody | Body json

datatype http_reply = ConnectionFailed | TimedOut | Cancelled | Response int http_body

text \<open>
  The body of the \<^verbatim>\<open>try\<close> block of \<^verbatim>\<open>extract_account_id_safe\<close>.
  \<open>api_key\<close> is \<^verbatim>\<open>STEAM_API_KEY\<close> (\<open>None\<close> when the variable is not set), and
  \<open>resolve\<close> gives the reply to the request for a vanity name.
\<close>

definition vanity_lookup :: "http_reply \<Rightarrow> exn + int option" where
  "vanity_lookup reply =
     (case reply of
        ConnectionFailed \<Rightarrow> Inl ClientError
      | TimedOut \<Rightarrow> Inl TimeoutError
      | Cancelled \<Rightarrow> Inl CancelledError
      | Response status body \<Rightarrow>
          if status = 200 then
            (case body of
               BadBody \<Rightarrow> Inl ValueError
             | Body data \<Rightarrow>
                 (case json_get data ''response'' (JObj []) of
                    Inl e \<Rightarrow> Inl e
                  | Inr resp \<Rightarrow>
                      (case json_get resp ''success'' JNull of
                         Inl e \<Rightarrow> Inl e
                       | Inr success \<Rightarrow>
                           if json_eq_1 success then
                             (case json_item data ''response'' of
                                Inl e \<Rightarrow> Inl e
                              | Inr resp' \<Rightarrow>
                                  (case json_item resp' ''steamid'' of
                                     Inl e \<Rightarrow> Inl e
                                   | Inr sid \<Rightarrow>
                                       (case json_int sid of
                                          Inl e \<Rightarrow> Inl e
                                        | Inr steam64 \<Rightarrow>
                                            Inr (Some (steam64_to_account_id steam64)))))
                           else Inr None)))
          else Inr None)"

text \<open>
  \<open>normalized\<close> names the first statement of the body, \<^verbatim>\<open>steam_url.strip().rstrip("/")\<close>.
\<close>

definition normalized :: "string \<Rightarrow> string" where
  "normalized steam_url = rstrip_slash (py_strip steam_url)"

definition key_missing :: "string option \<Rightarrow> bool" where
  "key_missing api_key = (api_key = None \<or> api_key = Some [])"

definition extract_body ::
  "string option \<Rightarrow> (string \<Rightarrow> http_reply) \<Rightarrow> string \<Rightarrow> exn + int option" where
  "extract_body api_key resolve steam_url =
     (let s = normalized steam_url in
      if py_isdigit s \<and> length s < 11 then
        (case py_int s of None \<Rightarrow> Inl ValueError | Some n \<Rightarrow> Inr (Some n))
      else if py_in ''/profiles/'' s then
        (case py_int (last_segment s) of
           None \<Rightarrow> Inl ValueError
         | Some steam64 \<Rightarrow> Inr (Some (steam64_to_account_id steam64)))
      else if py_in ''/id/'' s then
        (if key_missing api_key then Inr None
         else vanity_lookup (resolve (last_segment s)))
      else if py_isdigit s then
        (case py_int s of
           None \<Rightarrow> Inl ValueError
         | Some num \<Rightarrow>
             if num > 76561197960265728 then Inr (Some (steam64_to_account_id num))
             else Inr (Some num))
      else Inr None)"

text \<open>
  \<^verbatim>\<open>extract_account_id_safe\<close>: the body under \<^verbatim>\<open>except Exception\<close>, whose handler
  logs and returns \<^verbatim>\<open>None\<close>. \<open>Inr None\<close> is Python's \<^verbatim>\<open>None\<close>, \<open>Inl e\<close> an
  exception that reaches the caller.
\<close>

definition extract_account_id_safe ::
  "string option \<Rightarrow> (string \<Rightarrow> http_reply) \<Rightarrow> string \<Rightarrow> exn + int option" where
  "extract_account_id_safe api_key resolve steam_url =
     (case extract_body api_key resolve steam_url of
        Inl e \<Rightarrow> if is_Exception e then Inr None else Inl e
      | Inr r \<Rightarrow> Inr r)"

section \<open>Hero catalog\<close>

text \<open>\<^verbatim>\<open>bool(v)\<close> of a decoded JSON value.\<close>

fun json_truthy :: "json \<Rightarrow> bool" where
  "json_truthy JNull = False"
| "json_truthy (JBool b) = b"
| "json_truthy (JInt n) = (n \<noteq> 0)"
| "json_truthy (JReal r) = (r \<noteq> 0)"
| "json_truthy JNaN = True"
| "json_truthy JInf = True"
| "json_truthy (JStr s) = (s \<noteq> [])"
| "json_truthy (JArr xs) = (xs \<noteq> [])"
| "json_truthy (JObj kvs) = (kvs \<noteq> [])"

text \<open>
  What the global \<^verbatim>\<open>HEROES_CACHE\<close> can hold: a dictionary with integer keys, in
  insertion order, or the value \<^verbatim>\<open>json.load\<close> returned, which stays in the global
  when the conversion of its keys raises. The cache starts as \<open>Catalog []\<close>.
\<close>

datatype heroes = Catalog "(int \<times> json) list" | Raw json

fun heroes_truthy :: "heroes \<Rightarrow> bool" where
  "heroes_truthy (Catalog al) = (al \<noteq> [])"
| "heroes_truthy (Raw j) = json_truthy j"

text \<open>
  \<^verbatim>\<open>{int(k): v for k, v in d.items()}\<close>: a later item with the same key replaces the
  value and keeps the place of the first.
\<close>

fun int_keys :: "(string \<times> json) list \<Rightarrow> (int \<times> json) list \<Rightarrow> exn + (int \<times> json) list" where
  "int_keys [] acc = Inr acc"
| "int_keys ((k, v) # kvs) acc =
     (case py_int k of
        None \<Rightarrow> Inl ValueError
      | Some n \<Rightarrow> int_keys kvs (AList.update n v acc))"

definition local_catalog :: "json \<Rightarrow> exn + (int \<times> json) list" where
  "local_catalog j = (case j of JObj kvs \<Rightarrow> int_keys kvs [] | _ \<Rightarrow> Inl AttributeError)"

text \<open>\<^verbatim>\<open>{int(k): v['localized_name'] for k, v in data.items()}\<close>.\<close>

fun name_items :: "(string \<times> json) list \<Rightarrow> (int \<times> json) list \<Rightarrow> exn + (int \<times> json) list" where
  "name_items [] acc = Inr acc"
| "name_items ((k, v) # kvs) acc =
     (case py_int k of
        None \<Rightarrow> Inl ValueError
      | Some n \<Rightarrow>
          (case json_item v ''localized_name'' of
             Inl e \<Rightarrow> Inl e
           | Inr name \<Rightarrow> name_items kvs (AList.update n name acc)))"

definition api_catalog :: "json \<Rightarrow> exn + (int \<times> json) list" where
  "api_catalog data = (case data of JObj kvs \<Rightarrow> name_items kvs [] | _ \<Rightarrow> Inl AttributeError)"

text \<open>
  The file \<^verbatim>\<open>hero_names.json\<close>: it cannot be opened or decoded, or it decodes to a
  value.
\<close>

datatype local_file = Unreadable | Decoded json

text \<open>
  The second \<^verbatim>\<open>try\<close> block of \<^verbatim>\<open>get_heroes_data\<close>, the request to the stats
  API. The result is the returned value (\<open>None\<close> is Python's \<^verbatim>\<open>None\<close>, which a
  function returns when its body ends without \<^verbatim>\<open>return\<close>) and the cache. The
  handler of this block returns a new empty dictionary.
\<close>

definition heroes_from_api :: "http_reply \<Rightarrow> heroes \<Rightarrow> (exn + heroes option) \<times> heroes" where
  "heroes_from_api reply cache =
     (case reply of
        ConnectionFailed \<Rightarrow> (Inr (Some (Catalog [])), cache)
      | TimedOut \<Rightarrow> (Inr (Some (Catalog [])), cache)
      | Cancelled \<Rightarrow> (Inl CancelledError, cache)
      | Response status body \<Rightarrow>
          if status = 200 then
            (case body of
               BadBody \<Rightarrow> (Inr (Some (Catalog [])), cache)
             | Body data \<Rightarrow>
                 (case api_catalog data of
                    Inl e \<Rightarrow> (Inr (Some (Catalog [])), cache)
                  | Inr al \<Rightarrow> (Inr (Some (Catalog al)), Catalog al)))
          else (Inr None, cache))"

text \<open>
  \<^verbatim>\<open>get_heroes_data\<close>. In the first \<^verbatim>\<open>try\<close> block the global is assigned the
  decoded file before its keys are converted, so a failing conversion leaves the decoded
  value in the cache; the handler only logs, and the function goes on to the API.
\<close>

definition get_heroes_data ::
  "local_file \<Rightarrow> http_reply \<Rightarrow> heroes \<Rightarrow> (exn + heroes option) \<times> heroes" where
  "get_heroes_data file reply cache =
     (if heroes_truthy cache then (Inr (Some cache), cache)
      else
        (case file of
           Unreadable \<Rightarrow> heroes_from_api reply cache
         | Decoded j \<Rightarrow>
             (case local_catalog j of
                Inr al \<Rightarrow> (Inr (Some (Catalog al)), Catalog al)
              | Inl e \<Rightarrow> heroes_from_api reply (Raw j))))"

text \<open>
  \<^verbatim>\<open>heroes.get(hero_id, default)\<close> on what \<^verbatim>\<open>get_heroes_data\<close> returned: \<open>None\<close>
  and a value that is not a dictionary have no \<^verbatim>\<open>get\<close>; a dictionary with string
  keys has no integer key. \<open>Fallback\<close> is the label made of the hero id.
\<close>

datatype hero_label = Named json | Fallback int

fun heroes_get :: "heroes option \<Rightarrow> int \<Rightarrow> exn + hero_label" where
  "heroes_get None hero_id = Inl AttributeError"
| "heroes_get (Some (Catalog al)) hero_id =
     Inr (case map_of al hero_id of None \<Rightarrow> Fallback hero_id | Some name \<Rightarrow> Named name)"
| "heroes_get (Some (Raw (JObj kvs))) hero_id = Inr (Fallback hero_id)"
| "heroes_get (Some (Raw _)) hero_id = Inl AttributeError"

section \<open>Match formatter\<close>

text \<open>
  A match record is a dictionary of the stats API; the formatter reads each key with
  \<^verbatim>\<open>m.get(key, default)\<close>, so a field is \<open>None\<close> when the key is absent. The values
  are integers, and a boolean for \<^verbatim>\<open>radiant_win\<close>.
\<close>

record match_record =
  player_slot :: "int option"
  radiant_win :: "bool option"
  lane_role :: "int option"
  hero_id :: "int option"
  kills :: "int option"
  deaths :: "int option"
  assists :: "int option"
  duration :: "int option"

definition get_or :: "'a option \<Rightarrow> 'a \<Rightarrow> 'a" where
  "get_or field dflt = (case field of None \<Rightarrow> dflt | Some v \<Rightarrow> v)"

text \<open>The win test of the loop body.\<close>

definition is_win :: "match_record \<Rightarrow> bool" where
  "is_win m =
     (let is_radiant = get_or (player_slot m) 0 < 128;
          rw = get_or (radiant_win m) False
      in (is_radiant \<and> rw) \<or> (\<not> is_radiant \<and> \<not> rw))"

text \<open>The role the loop body appends for a lane code, if any.\<close>

definition lane_name :: "match_record \<Rightarrow> string option" where
  "lane_name m =
     (let lane = get_or (lane_role m) 0 in
      if lane = 1 then Some ''Safe Lane''
      else if lane = 2 then Some ''Mid Lane''
      else if lane = 3 then Some ''Off Lane''
      else if lane = 4 \<or> lane = 5 then Some ''Support''
      else None)"

text \<open>
  One displayed line: the values the loop body puts into its format string. The ratio
  \<^verbatim>\<open>(k + a) / d\<close> is a float in the source and is kept here as the exact quotient;
  it is present only when \<^verbatim>\<open>d > 0\<close>. \<open>ruled\<close> tells whether the line is followed by
  the separator, which the first five lines are.
\<close>

record match_line =
  position :: nat
  won :: bool
  hero :: hero_label
  kda :: "int \<times> int \<times> int"
  kda_ratio :: "rat option"
  minutes :: int
  seconds :: int
  ruled :: bool

definition format_line :: "nat \<Rightarrow> match_record \<Rightarrow> hero_label \<Rightarrow> match_line" where
  "format_line i m name =
     (let k = get_or (kills m) 0; d = get_or (deaths m) 0; a = get_or (assists m) 0;
          dur = get_or (duration m) 0
      in \<lparr>position = i, won = is_win m, hero = name, kda = (k, d, a),
          kda_ratio = (if d > 0 then Some (of_int (k + a) / of_int d) else None),
          minutes = dur div 60, seconds = dur mod 60, ruled = (i < 6)\<rparr>)"

text \<open>
  The state of the loop over \<^verbatim>\<open>enumerate(matches[:10], 1)\<close>: the win count, the
  roles and the lines so far.
\<close>

record loop_state =
  wins :: nat
  roles :: "string list"
  lines :: "match_line list"

fun match_loop :: "heroes option \<Rightarrow> nat \<Rightarrow> match_record list \<Rightarrow> loop_state \<Rightarrow> exn + loop_state" where
  "match_loop heroes i [] st = Inr st"
| "match_loop heroes i (m # ms) st =
     (case heroes_get heroes (get_or (hero_id m) 0) of
        Inl e \<Rightarrow> Inl e
      | Inr name \<Rightarrow>
          match_loop heroes (Suc i) ms
            \<lparr>wins = (if is_win m then wins st + 1 else wins st),
             roles = (case lane_name m of None \<Rightarrow> roles st | Some r \<Rightarrow> roles st @ [r]),
             lines = lines st @ [format_line i m name]\<rparr>)"

text \<open>
  \<^verbatim>\<open>Counter(roles)\<close> counts in one pass and keeps its keys in the order of their first
  occurrence. \<^verbatim>\<open>most_common(1)\<close> is \<^verbatim>\<open>max\<close> over the items by count, and
  \<^verbatim>\<open>max\<close> keeps the first of several greatest items.
\<close>

fun counter_add :: "'a \<Rightarrow> ('a \<times> nat) list \<Rightarrow> ('a \<times> nat) list" where
  "counter_add x [] = [(x, 1)]"
| "counter_add x ((k, n) # al) = (if k = x then (k, n + 1) # al else (k, n) # counter_add x al)"

definition Counter :: "'a list \<Rightarrow> ('a \<times> nat) list" where
  "Counter xs = foldl (\<lambda>al x. counter_add x al) [] xs"

fun max_from :: "('a \<times> nat) \<Rightarrow> ('a \<times> nat) list \<Rightarrow> ('a \<times> nat)" where
  "max_from best [] = best"
| "max_from best (item # items) = max_from (if snd item > snd best then item else best) items"

definition most_common_1 :: "('a \<times> nat) list \<Rightarrow> ('a \<times> nat) list" where
  "most_common_1 al = (case al of [] \<Rightarrow> [] | item # items \<Rightarrow> [max_from item items])"

text \<open>
  The header: the values of its format string. \<open>winrate\<close> is \<^verbatim>\<open>wins / total * 100\<close>,
  a float in the source, kept here as the exact quotient (the float is that quotient
  rounded, and equals it where the division is exact, as for one win in two). \<open>main_role\<close> is the role, its
  count and \<^verbatim>\<open>len(roles)\<close>, or \<open>None\<close> for the text shown when no role was found.
\<close>

record header =
  total :: nat
  winrate :: rat
  shown_wins :: nat
  shown_losses :: int
  main_role :: "(string \<times> nat \<times> nat) option"

datatype display = NoData | Report header "match_line list"

definition make_header :: "nat \<Rightarrow> loop_state \<Rightarrow> header" where
  "make_header n st =
     \<lparr>total = n,
      winrate = (if n > 0 then of_nat (wins st) / of_nat n * 100 else 0),
      shown_wins = wins st,
      shown_losses = int n - int (wins st),
      main_role =
        (if roles st \<noteq> [] then
           (case most_common_1 (Counter (roles st)) of
              (r, c) # _ \<Rightarrow> Some (r, c, length (roles st))
            | [] \<Rightarrow> None)
         else None)\<rparr>"

text \<open>
  \<^verbatim>\<open>format_matches_for_display\<close>, with the hero file, the reply of the stats API and
  the cache that its call of \<^verbatim>\<open>get_heroes_data\<close> meets. \<^verbatim>\<open>total\<close> is
  \<^verbatim>\<open>len(matches)\<close>, taken before the loop over \<^verbatim>\<open>matches[:10]\<close>.
\<close>

definition format_matches_for_display ::
  "local_file \<Rightarrow> http_reply \<Rightarrow> heroes \<Rightarrow> match_record list \<Rightarrow> (exn + display) \<times> heroes" where
  "format_matches_for_display file reply cache matches =
     (if matches = [] then (Inr NoData, cache)
      else
        (case get_heroes_data file reply cache of
           (Inl e, cache') \<Rightarrow> (Inl e, cache')
         | (Inr heroes, cache') \<Rightarrow>
             (case match_loop heroes 1 (take 10 matches) \<lparr>wins = 0, roles = [], lines = []\<rparr> of
                Inl e \<Rightarrow> (Inl e, cache')
              | Inr st \<Rightarrow> (Inr (Report (make_header (length matches) st) (lines st)), cache'))))"

section \<open>Benchmark analyzer\<close>

text \<open>
  The loop of \<^verbatim>\<open>analyze_command\<close> over its table \<^verbatim>\<open>metrics\<close>, run on the decoded
  benchmark response \<^verbatim>\<open>bench\<close>: a dictionary from metric keys to lists of samples. A
  sample is a dictionary read with \<^verbatim>\<open>get('percentile', 0)\<close> and
  \<^verbatim>\<open>get('value', 0)\<close>, a field being \<open>None\<close> when the key is absent; a number
  is held as the rational value of the decoded integer or float.
\<close>

record sample =
  percentile :: "rat option"
  val :: "rat option"

definition metrics :: "string list" where
  "metrics =
     [''gold_per_min'', ''xp_per_min'', ''kills_per_min'', ''hero_damage_per_min'',
      ''hero_healing_per_min'', ''tower_damage'', ''last_hits_per_min'']"

datatype rating = Excellent | Good | Average | BelowAverage | Poor

text \<open>
  The five bands. Python compares a number with a float by value, so each bound is the
  rational value of the float that the literal \<^verbatim>\<open>0.8\<close>, \<^verbatim>\<open>0.6\<close>, \<^verbatim>\<open>0.4\<close> or
  \<^verbatim>\<open>0.2\<close> denotes.
\<close>

definition rate :: "rat \<Rightarrow> rating" where
  "rate p =
     (if p \<ge> 3602879701896397 / 4503599627370496 then Excellent
      else if p \<ge> 5404319552844595 / 9007199254740992 then Good
      else if p \<ge> 3602879701896397 / 9007199254740992 then Average
      else if p \<ge> 3602879701896397 / 18014398509481984 then BelowAverage
      else Poor)"

text \<open>
  What the loop body appends to the text for one metric: its key (the table gives the
  title and the usual range of the key), the rating, and the value and the percentile
  that it prints (the percentile times 100).
\<close>

record analysis_line =
  metric :: string
  rated :: rating
  shown_value :: rat
  shown_percentile :: rat

definition sample_line :: "string \<Rightarrow> sample \<Rightarrow> analysis_line" where
  "sample_line metric_key percentile_data =
     (let p = get_or (percentile percentile_data) 0;
          v = get_or (val percentile_data) 0
      in \<lparr>metric = metric_key, rated = rate p, shown_value = v, shown_percentile = p\<rparr>)"

text \<open>
  \<open>target_index\<close> is the index the body computes, and \<open>metric_lines\<close> one turn of the
  loop: nothing is appended unless the key is in \<^verbatim>\<open>bench\<close> with a non-empty list of
  at least six samples. The index is read only under that test, where it lies within
  the list.
\<close>

definition target_index :: "sample list \<Rightarrow> int" where
  "target_index data_points = min 4 (int (length data_points) - 1)"

definition metric_lines :: "(string \<rightharpoonup> sample list) \<Rightarrow> string \<Rightarrow> analysis_line list" where
  "metric_lines bench metric_key =
     (case bench metric_key of
        None \<Rightarrow> []
      | Some data_points \<Rightarrow>
          if data_points \<noteq> [] then
            (if length data_points \<ge> 6 then
               [sample_line metric_key (data_points ! nat (target_index data_points))]
             else [])
          else [])"

definition analysis_lines :: "(string \<rightharpoonup> sample list) \<Rightarrow> analysis_line list" where
  "analysis_lines bench = concat (map (metric_lines bench) metrics)"

section \<open>Score storage\<close>

text \<open>
  The table \<^verbatim>\<open>users\<close> of \<^verbatim>\<open>_python_2.py\<close>, keyed by \<^verbatim>\<open>telegram_id\<close>. The
  database is outside the program: \<open>db_fault\<close> says which of its calls raises, if any,
  and \<open>add\<close> is the engine's addition on the column \<^verbatim>\<open>score\<close>, \<open>None\<close> where the
  engine refuses the sum (an \<^verbatim>\<open>INTEGER\<close> out of range).
\<close>

record user_row =
  account_id :: int
  score :: int

datatype db_fault = NoFault | ConnectFails | ExecuteFails | CommitFails | CloseFails

datatype db_error = OperationalError

text \<open>
  The body of the \<^verbatim>\<open>try\<close> block of \<^verbatim>\<open>update_score\<close>: connect, run the
  \<^verbatim>\<open>UPDATE ... WHERE telegram_id = ?\<close>, commit, close. The update changes the row
  of the id when there is one and no row when there is none; it reaches the table at
  the commit.
\<close>

definition update_score_body ::
  "db_fault \<Rightarrow> (int \<Rightarrow> int \<Rightarrow> int option) \<Rightarrow> (int \<rightharpoonup> user_row) \<Rightarrow> int \<Rightarrow> int
     \<Rightarrow> (db_error + unit) \<times> (int \<rightharpoonup> user_row)" where
  "update_score_body fault add users telegram_id points =
     (if fault = ConnectFails \<or> fault = ExecuteFails then (Inl OperationalError, users)
      else
        (case (case users telegram_id of
                 None \<Rightarrow> Some users
               | Some row \<Rightarrow>
                   (case add (score row) points of
                      None \<Rightarrow> None
                    | Some s \<Rightarrow> Some (users(telegram_id \<mapsto> row\<lparr>score := s\<rparr>)))) of
           None \<Rightarrow> (Inl OperationalError, users)
         | Some users' \<Rightarrow>
             if fault = CommitFails then (Inl OperationalError, users)
             else if fault = CloseFails then (Inl OperationalError, users')
             else (Inr (), users')))"

text \<open>
  \<^verbatim>\<open>update_score\<close>: \<^verbatim>\<open>True\<close> at the end of the block, \<^verbatim>\<open>False\<close> from the
  handler.
\<close>

definition update_score ::
  "db_fault \<Rightarrow> (int \<Rightarrow> int \<Rightarrow> int option) \<Rightarrow> (int \<rightharpoonup> user_row) \<Rightarrow> int \<Rightarrow> int
     \<Rightarrow> bool \<times> (int \<rightharpoonup> user_row)" where
  "update_score fault add users telegram_id points =
     (case update_score_body fault add users telegram_id points of
        (Inl e, users') \<Rightarrow> (False, users')
      | (Inr u, users') \<Rightarrow> (True, users'))"

section \<open>Notions used in the statements\<close>

text \<open>
  The integer that a string of decimal digits denotes, most significant digit first.
\<close>

definition decimal_value :: "string \<Rightarrow> nat" where
  "decimal_value s = foldl (\<lambda>a c. a * 10 + digit_value c) 0 s"

text \<open>
  A reply of the vanity service that gives no Steam64: a failed connection, a timeout,
  a status other than 200, a body that does not decode, a decoded body whose
  \<^verbatim>\<open>response.success\<close> is not 1, or one whose \<^verbatim>\<open>response.steamid\<close> is missing or
  is no integer.
\<close>

definition body_failed :: "json \<Rightarrow> bool" where
  "body_failed data =
     (case json_get data ''response'' (JObj []) of
        Inl e \<Rightarrow> True
      | Inr resp \<Rightarrow>
          (case json_get resp ''success'' JNull of
             Inl e \<Rightarrow> True
           | Inr success \<Rightarrow>
               if json_eq_1 success then
                 (case json_item resp ''steamid'' of
                    Inl e \<Rightarrow> True
                  | Inr sid \<Rightarrow> (case json_int sid of Inl e \<Rightarrow> True | Inr n \<Rightarrow> False))
               else True))"

fun call_failed :: "http_reply \<Rightarrow> bool" where
  "call_failed ConnectionFailed = True"
| "call_failed TimedOut = True"
| "call_failed Cancelled = False"
| "call_failed (Response status BadBody) = True"
| "call_failed (Response status (Body data)) = (if status = 200 then body_failed data else True)"

text \<open>
  An input that reaches the vanity branch, and an input that no rule can read: a
  profile URL whose last segment is no integer, or a string without
  \<^verbatim>\<open>/profiles/\<close> and \<^verbatim>\<open>/id/\<close> that is not made of digits or that \<^verbatim>\<open>int\<close> refuses.
\<close>

definition vanity_input :: "string \<Rightarrow> bool" where
  "vanity_input steam_url =
     (\<not> py_in ''/profiles/'' (normalized steam_url) \<and> py_in ''/id/'' (normalized steam_url))"

definition unparseable :: "string \<Rightarrow> bool" where
  "unparseable steam_url =
     (let s = normalized steam_url in
      if py_in ''/profiles/'' s then py_int (last_segment s) = None
      else if py_in ''/id/'' s then False
      else if py_isdigit s then py_int s = None
      else True)"

text \<open>
  The roles that the loop tallies, in the order it meets them, and the mode of a tally
  that comes first in it: the first role whose count no other role exceeds.
\<close>

definition tallied_roles :: "match_record list \<Rightarrow> string list" where
  "tallied_roles matches = List.map_filter lane_name (take 10 matches)"

definition is_mode :: "'a list \<Rightarrow> 'a \<Rightarrow> bool" where
  "is_mode rs r = list_all (\<lambda>r'. count_list rs r' \<le> count_list rs r) rs"

definition first_mode :: "'a list \<Rightarrow> 'a option" where
  "first_mode rs = List.find (is_mode rs) rs"

text \<open>
  A match record with a player slot, a radiant-win flag and a lane code, and no other
  key.
\<close>

definition match_with :: "int \<Rightarrow> bool \<Rightarrow> int \<Rightarrow> match_record" where
  "match_with slot rw lane =
     \<lparr>player_slot = Some slot, radiant_win = Some rw, lane_role = Some lane,
      hero_id = None, kills = None, deaths = None, assists = None, duration = None\<rparr>"


section \<open>Properties of the string operations\<close>

lemma py_in_set: "py_in sub s \<Longrightarrow> set sub \<subseteq> set s"
proof (induction s)
  case Nil
  then show ?case by simp
next
  case (Cons c cs)
  from Cons.prems have "take (length sub) (c # cs) = sub \<or> py_in sub cs" by simp
  then show ?case
  proof
    assume "take (length sub) (c # cs) = sub"
    then have "set sub = set (take (length sub) (c # cs))" by simp
    also have "\<dots> \<subseteq> set (c # cs)" by (rule set_take_subset)
    finally show ?thesis .
  next
    assume "py_in sub cs"
    with Cons.IH show ?thesis by auto
  qed
qed

lemma py_in_same: "py_in sub (sub @ ys)"
proof (cases "sub @ ys")
  case Nil
  then show ?thesis by simp
next
  case (Cons a l)
  have "take (length sub) (sub @ ys) = sub" by simp
  then have "take (length sub) (a # l) = sub" by (simp only: Cons)
  then have "py_in sub (a # l)" by simp
  then show ?thesis by (simp only: Cons)
qed

lemma py_in_append: "py_in sub (xs @ sub @ ys)"
proof (induction xs)
  case Nil
  show ?case using py_in_same by simp
next
  case (Cons x xs)
  then show ?case by simp
qed

lemma decimal_not_space: "is_decimal c \<Longrightarrow> \<not> py_isspace c"
  by (auto simp: is_decimal_def py_isspace_def)

lemma decimal_not_int_space: "is_decimal c \<Longrightarrow> \<not> int_isspace c"
  by (auto simp: is_decimal_def int_isspace_def)

lemma decimal_not_slash: "is_decimal c \<Longrightarrow> c \<noteq> CHR ''/''"
  by (auto simp: is_decimal_def code_point_def)

lemma decimal_not_sign: "is_decimal c \<Longrightarrow> c \<noteq> CHR ''-'' \<and> c \<noteq> CHR ''+''"
  by (auto simp: is_decimal_def code_point_def)

lemma slash_not_space: "\<not> py_isspace (CHR ''/'')"
  by (simp add: py_isspace_def code_point_def)

lemma slash_not_isdigit: "\<not> isdigit_char (CHR ''/'')"
  by (simp add: isdigit_char_def is_decimal_def code_point_def)

lemma rstrip_keep: "s \<noteq> [] \<Longrightarrow> \<not> P (last s) \<Longrightarrow> rev (dropWhile P (rev s)) = s"
  by (cases s rule: rev_cases) auto

lemma lstrip_keep: "s \<noteq> [] \<Longrightarrow> \<not> P (hd s) \<Longrightarrow> dropWhile P s = s"
  by (cases s) auto

lemma lstrip_append: "t \<noteq> [] \<Longrightarrow> \<not> P (hd t) \<Longrightarrow> dropWhile P (p @ t) = dropWhile P p @ t"
  by (induction p) (simp_all add: lstrip_keep)

lemma parse_digits_all:
  "list_all is_decimal s \<Longrightarrow>
   parse_digits acc s = Some (foldl (\<lambda>a c. a * 10 + digit_value c) acc s)"
  by (induction s arbitrary: acc) auto

lemma int_strip_decimal:
  assumes "s \<noteq> []" "list_all is_decimal s"
  shows "int_strip s = s"
proof -
  from assms have h: "\<not> int_isspace (hd s)" and l: "\<not> int_isspace (last s)"
    by (auto simp: list_all_iff decimal_not_int_space)
  show ?thesis
    unfolding int_strip_def using assms(1) h l by (simp add: lstrip_keep rstrip_keep)
qed

lemma py_int_decimal:
  assumes "s \<noteq> []" "list_all is_decimal s"
  shows "py_int s = Some (int (decimal_value s))"
proof -
  obtain c cs where s: "s = c # cs" using assms(1) by (cases s) auto
  with assms(2) have c: "is_decimal c" by simp
  have "parse_unsigned s = Some (int (decimal_value s))"
    using c assms(2)
    by (simp add: parse_unsigned_def s parse_digits_all decimal_value_def del: parse_digits.simps)
  then show ?thesis
    using decimal_not_sign [OF c] int_strip_decimal [OF assms] by (simp add: py_int_def s)
qed

lemma decimal_isdigit: "list_all is_decimal s \<Longrightarrow> list_all isdigit_char s"
  by (induction s) (auto simp: isdigit_char_def)

lemma isdigit_no_sub:
  assumes "py_isdigit s" "CHR ''/'' \<in> set sub"
  shows "\<not> py_in sub s"
proof
  assume "py_in sub s"
  then have "set sub \<subseteq> set s" by (rule py_in_set)
  with assms(2) have "CHR ''/'' \<in> set s" by auto
  with assms(1) have "isdigit_char (CHR ''/'')" by (auto simp: py_isdigit_def list_all_iff)
  then show False by (simp add: slash_not_isdigit)
qed

lemma last_segment_after_slash:
  assumes "CHR ''/'' \<notin> set d"
  shows "last_segment (xs @ CHR ''/'' # d) = d"
proof -
  have "takeWhile (\<lambda>c. c \<noteq> CHR ''/'') (rev d @ CHR ''/'' # rev xs)
      = rev d @ takeWhile (\<lambda>c. c \<noteq> CHR ''/'') (CHR ''/'' # rev xs)"
    by (rule takeWhile_append2) (use assms in auto)
  then show ?thesis by (simp add: last_segment_def)
qed

text \<open>
  A string that ends in \<^verbatim>\<open>/profiles/\<close> and decimal digits, whatever stands before: the
  normalisation only drops leading whitespace, and the last segment is the digits.
\<close>

lemma normalized_profile:
  assumes "d \<noteq> []" "list_all is_decimal d"
  shows "normalized (p @ ''/profiles/'' @ d) = dropWhile py_isspace p @ ''/profiles/'' @ d"
proof -
  let ?t = "''/profiles/'' @ d"
  have l: "last (p @ ?t) = last d" using assms(1) by simp
  have ld: "is_decimal (last d)" using assms by (simp add: list_all_iff)
  have "dropWhile py_isspace (p @ ?t) = dropWhile py_isspace p @ ?t"
    by (rule lstrip_append) (simp_all add: slash_not_space)
  moreover have "rev (dropWhile py_isspace (rev (dropWhile py_isspace p @ ?t)))
      = dropWhile py_isspace p @ ?t"
    by (rule rstrip_keep) (use assms(1) ld in \<open>simp_all add: decimal_not_space\<close>)
  moreover have "rev (dropWhile (\<lambda>c. c = CHR ''/'') (rev (dropWhile py_isspace p @ ?t)))
      = dropWhile py_isspace p @ ?t"
    by (rule rstrip_keep) (use assms(1) ld in \<open>simp_all add: decimal_not_slash\<close>)
  ultimately show ?thesis
    by (simp add: normalized_def py_strip_def rstrip_slash_def)
qed

lemma profile_url_resolution:
  assumes "d \<noteq> []" "list_all is_decimal d"
  shows "extract_account_id_safe api_key resolve (p @ ''/profiles/'' @ d)
           = Inr (Some (int (decimal_value d) - 76561197960265728))"
proof -
  let ?q = "dropWhile py_isspace p"
  let ?s = "?q @ ''/profiles/'' @ d"
  have n: "normalized (p @ ''/profiles/'' @ d) = ?s"
    using assms by (rule normalized_profile)
  have nd: "\<not> py_isdigit ?s"
    using isdigit_no_sub [of ?s "''/profiles/''"] py_in_append [of "''/profiles/''" ?q d]
    by auto
  have inp: "py_in ''/profiles/'' ?s" by (rule py_in_append)
  have "CHR ''/'' \<notin> set d"
    using assms(2) decimal_not_slash by (auto simp: list_all_iff)
  then have "last_segment ((?q @ ''/profiles'') @ CHR ''/'' # d) = d"
    by (rule last_segment_after_slash)
  then have seg: "last_segment ?s = d" by simp
  have val: "py_int d = Some (int (decimal_value d))"
    using assms by (rule py_int_decimal)
  have "extract_body api_key resolve (p @ ''/profiles/'' @ d)
          = Inr (Some (int (decimal_value d) - 76561197960265728))"
    unfolding extract_body_def n Let_def
    using nd inp seg val by (simp add: steam64_to_account_id_def)
  then show ?thesis by (simp add: extract_account_id_safe_def)
qed

section \<open>Properties of the identity resolver\<close>

text \<open>
  Claim C8. For an input that ends in \<^verbatim>\<open>/profiles/76561198000000001\<close>, whatever stands
  before that (the dots of \<^verbatim>\<open>.../profiles/76561198000000001\<close>, a scheme and a host,
  or nothing), and whatever the API key and the vanity service are, the resolver returns
  \<open>76561198000000001 - 76561197960265728 = 39734273\<close>: the offset is subtracted once.
\<close>

theorem profile_url_resolves_to_39734273:
  "extract_account_id_safe api_key resolve (p @ ''/profiles/76561198000000001'')
     = Inr (Some 39734273)"
proof -
  have d: "list_all is_decimal ''76561198000000001''"
    by (simp add: is_decimal_def code_point_def)
  have v: "decimal_value ''76561198000000001'' = 76561198000000001"
    by (simp add: decimal_value_def digit_value_def code_point_def)
  have "extract_account_id_safe api_key resolve (p @ ''/profiles/'' @ ''76561198000000001'')
          = Inr (Some (int (decimal_value ''76561198000000001'') - 76561197960265728))"
    by (rule profile_url_resolution [OF _ d]) simp
  then show ?thesis by (simp add: v)
qed

text \<open>
  Claim C2. The claim says that every identifier the resolver returns is non-negative,
  in particular on the \<^verbatim>\<open>/profiles/\<close> path. The code subtracts the offset from the
  last segment of a profile URL without looking at its size (the branch for a bare
  number compares with the offset first): for an input that ends in
  \<^verbatim>\<open>/profiles/123\<close> it returns \<open>123 - 76561197960265728\<close>, a negative number.
\<close>

theorem small_profile_segment_resolves_negative:
  "extract_account_id_safe api_key resolve (p @ ''/profiles/123'')
     = Inr (Some (- 76561197960265605))"
proof -
  have d: "list_all is_decimal ''123''"
    by (simp add: is_decimal_def code_point_def)
  have v: "decimal_value ''123'' = 123"
    by (simp add: decimal_value_def digit_value_def code_point_def)
  have "extract_account_id_safe api_key resolve (p @ ''/profiles/'' @ ''123'')
          = Inr (Some (int (decimal_value ''123'') - 76561197960265728))"
    by (rule profile_url_resolution [OF _ d]) simp
  then show ?thesis by (simp add: v)
qed

text \<open>
  Claim C3. Let the input, trimmed of whitespace and of trailing slashes, be a
  non-empty string \<open>s\<close> of the digits 0 to 9, and \<open>v\<close> the integer it denotes. With
  fewer than 11 characters the resolver returns \<open>v\<close>; with 11 or more it returns
  \<open>v - 76561197960265728\<close> when \<open>v > 76561197960265728\<close>, and \<open>v\<close> otherwise.
  (\<^verbatim>\<open>str.isdigit\<close> also accepts the superscript digits, which denote no integer:
  \<^verbatim>\<open>int\<close> raises on them and the resolver returns \<^verbatim>\<open>None\<close>, see
  \<open>superscript_digits_denote_nothing\<close>.)
\<close>

theorem all_digit_input:
  assumes "normalized steam_url = s" and "s \<noteq> []" and "list_all is_decimal s"
  shows "extract_account_id_safe api_key resolve steam_url =
           Inr (Some (if length s < 11 then int (decimal_value s)
                      else if int (decimal_value s) > 76561197960265728
                           then int (decimal_value s) - 76561197960265728
                           else int (decimal_value s)))"
proof -
  have dig: "py_isdigit s"
    using assms(2,3) by (simp add: py_isdigit_def decimal_isdigit)
  have val: "py_int s = Some (int (decimal_value s))"
    using assms(2,3) by (rule py_int_decimal)
  have np: "\<not> py_in ''/profiles/'' s"
    using dig by (rule isdigit_no_sub) simp
  have ni: "\<not> py_in ''/id/'' s"
    using dig by (rule isdigit_no_sub) simp
  have "extract_body api_key resolve steam_url =
          Inr (Some (if length s < 11 then int (decimal_value s)
                     else if int (decimal_value s) > 76561197960265728
                          then int (decimal_value s) - 76561197960265728
                          else int (decimal_value s)))"
    unfolding extract_body_def assms(1) Let_def
    using dig val np ni by (simp add: steam64_to_account_id_def)
  then show ?thesis by (simp add: extract_account_id_safe_def)
qed

theorem all_digit_input_witness:
  "normalized '' 76561198000000001/'' = ''76561198000000001''
   \<and> extract_account_id_safe None (\<lambda>v. TimedOut) '' 76561198000000001/'' = Inr (Some 39734273)
   \<and> normalized ''12345'' = ''12345''
   \<and> extract_account_id_safe None (\<lambda>v. TimedOut) ''12345'' = Inr (Some 12345)
   \<and> normalized ''00000012345'' = ''00000012345''
   \<and> extract_account_id_safe None (\<lambda>v. TimedOut) ''00000012345'' = Inr (Some 12345)"
proof -
  have n1: "normalized '' 76561198000000001/'' = ''76561198000000001''"
    by (simp add: normalized_def py_strip_def rstrip_slash_def py_isspace_def code_point_def)
  have d1: "list_all is_decimal ''76561198000000001''"
    by (simp add: is_decimal_def code_point_def)
  have v1: "decimal_value ''76561198000000001'' = 76561198000000001"
    by (simp add: decimal_value_def digit_value_def code_point_def)
  have n2: "normalized ''12345'' = ''12345''"
    by (simp add: normalized_def py_strip_def rstrip_slash_def py_isspace_def code_point_def)
  have d2: "list_all is_decimal ''12345''"
    by (simp add: is_decimal_def code_point_def)
  have v2: "decimal_value ''12345'' = 12345"
    by (simp add: decimal_value_def digit_value_def code_point_def)
  have n3: "normalized ''00000012345'' = ''00000012345''"
    by (simp add: normalized_def py_strip_def rstrip_slash_def py_isspace_def code_point_def)
  have d3: "list_all is_decimal ''00000012345''"
    by (simp add: is_decimal_def code_point_def)
  have v3: "decimal_value ''00000012345'' = 12345"
    by (simp add: decimal_value_def digit_value_def code_point_def)
  from all_digit_input [OF n1 _ d1, of None "\<lambda>v. TimedOut"]
  have r1: "extract_account_id_safe None (\<lambda>v. TimedOut) '' 76561198000000001/'' = Inr (Some 39734273)"
    by (simp add: v1)
  from all_digit_input [OF n2 _ d2, of None "\<lambda>v. TimedOut"]
  have r2: "extract_account_id_safe None (\<lambda>v. TimedOut) ''12345'' = Inr (Some 12345)"
    by (simp add: v2)
  from all_digit_input [OF n3 _ d3, of None "\<lambda>v. TimedOut"]
  have r3: "extract_account_id_safe None (\<lambda>v. TimedOut) ''00000012345'' = Inr (Some 12345)"
    by (simp add: v3)
  from n1 r1 n2 r2 n3 r3 show ?thesis by blast
qed

lemma superscript_digits_denote_nothing:
  "py_isdigit [char_of (178 :: nat)]
   \<and> extract_account_id_safe api_key resolve [char_of (178 :: nat)] = Inr None"
  by (simp add: py_isdigit_def isdigit_char_def is_decimal_def code_point_def
      extract_account_id_safe_def extract_body_def normalized_def py_strip_def
      rstrip_slash_def py_isspace_def py_int_def int_strip_def int_isspace_def
      parse_unsigned_def)

lemma json_get_exn: "json_get j k d = Inl e \<Longrightarrow> is_Exception e"
  by (cases j) auto

lemma json_item_exn: "json_item j k = Inl e \<Longrightarrow> is_Exception e"
  by (cases j) (auto split: option.splits)

lemma json_int_exn: "json_int j = Inl e \<Longrightarrow> is_Exception e"
  by (cases j) (auto split: option.splits)

lemma json_item_of_get:
  "json_get data k (JObj []) = Inr resp \<Longrightarrow> json_item resp k' = Inr v \<Longrightarrow> json_item data k = Inr resp"
  by (cases data) (auto split: option.splits)

lemma vanity_lookup_exn:
  assumes "vanity_lookup reply = Inl e" "reply \<noteq> Cancelled"
  shows "is_Exception e"
proof (cases reply)
  case (Response status body)
  show ?thesis
  proof (cases body)
    case BadBody
    with Response assms(1) show ?thesis
      by (auto simp: vanity_lookup_def split: if_splits)
  next
    case (Body data)
    with Response assms(1) show ?thesis
      by (auto simp: vanity_lookup_def split: if_splits sum.splits
          dest: json_get_exn json_item_exn json_int_exn)
  qed
qed (use assms in \<open>auto simp: vanity_lookup_def\<close>)

lemma body_failed_lookup:
  assumes "body_failed data"
  shows "vanity_lookup (Response 200 (Body data)) = Inr None
       \<or> (\<exists>e. vanity_lookup (Response 200 (Body data)) = Inl e)"
proof (cases "vanity_lookup (Response 200 (Body data))")
  case (Inl e)
  then show ?thesis by simp
next
  case (Inr r)
  show ?thesis
  proof (cases r)
    case None
    with Inr show ?thesis by simp
  next
    case (Some n)
    from Inr Some obtain resp success resp' sid steam64 where
      g: "json_get data ''response'' (JObj []) = Inr resp"
      and s: "json_get resp ''success'' JNull = Inr success" "json_eq_1 success"
      and i: "json_item data ''response'' = Inr resp'"
      and t: "json_item resp' ''steamid'' = Inr sid"
      and n: "json_int sid = Inr steam64"
      by (auto simp: vanity_lookup_def split: sum.splits if_splits)
    from g i have "resp' = resp" by (cases data) (auto split: option.splits)
    with assms g s t n show ?thesis by (simp add: body_failed_def)
  qed
qed

lemma vanity_lookup_failed:
  assumes "call_failed reply"
  shows "vanity_lookup reply = Inr None \<or> (\<exists>e. vanity_lookup reply = Inl e \<and> is_Exception e)"
proof -
  from assms have nc: "reply \<noteq> Cancelled" by auto
  have "vanity_lookup reply = Inr None \<or> (\<exists>e. vanity_lookup reply = Inl e)"
  proof (cases reply)
    case (Response status body)
    show ?thesis
    proof (cases body)
      case BadBody
      with Response show ?thesis by (simp add: vanity_lookup_def)
    next
      case (Body data)
      show ?thesis
      proof (cases "status = 200")
        case True
        with Response Body assms have "body_failed data" by simp
        from body_failed_lookup [OF this] Response Body True show ?thesis by simp
      next
        case False
        with Response show ?thesis by (simp add: vanity_lookup_def)
      qed
    qed
  qed (use assms in \<open>auto simp: vanity_lookup_def\<close>)
  with nc vanity_lookup_exn show ?thesis by blast
qed

lemma extract_body_exn:
  assumes "extract_body api_key resolve steam_url = Inl e"
    and "resolve (last_segment (normalized steam_url)) \<noteq> Cancelled"
  shows "is_Exception e"
  using assms vanity_lookup_exn [of "resolve (last_segment (normalized steam_url))" e]
  by (auto simp: extract_body_def Let_def split: if_splits option.splits)

lemma safe_of_body:
  "extract_body api_key resolve steam_url = Inr None \<or>
   (\<exists>e. extract_body api_key resolve steam_url = Inl e \<and> is_Exception e) \<Longrightarrow>
   extract_account_id_safe api_key resolve steam_url = Inr None"
  by (auto simp: extract_account_id_safe_def)

text \<open>
  Claim C5. Whatever the input and the API key are, and whatever the vanity service
  does short of the task being cancelled, the resolver returns a value and raises
  nothing. On an input of the vanity branch it returns \<^verbatim>\<open>None\<close> when the key is not
  configured or the call fails: network error, timeout, a status other than 200, an
  undecodable body, a body that does not report success or gives no integer Steam64.
  On an input that no rule can read it returns \<^verbatim>\<open>None\<close>.
\<close>

theorem failure_is_no_identifier:
  "(resolve (last_segment (normalized steam_url)) \<noteq> Cancelled \<longrightarrow>
      (\<exists>res. extract_account_id_safe api_key resolve steam_url = Inr res))
   \<and> (vanity_input steam_url \<and>
        (key_missing api_key \<or> call_failed (resolve (last_segment (normalized steam_url)))) \<longrightarrow>
      extract_account_id_safe api_key resolve steam_url = Inr None)
   \<and> (unparseable steam_url \<longrightarrow>
      extract_account_id_safe api_key resolve steam_url = Inr None)"
proof (intro conjI impI)
  assume nc: "resolve (last_segment (normalized steam_url)) \<noteq> Cancelled"
  show "\<exists>res. extract_account_id_safe api_key resolve steam_url = Inr res"
  proof (cases "extract_body api_key resolve steam_url")
    case (Inl e)
    from Inl nc have "is_Exception e" by (rule extract_body_exn)
    with Inl show ?thesis by (simp add: extract_account_id_safe_def)
  next
    case (Inr r)
    then show ?thesis by (simp add: extract_account_id_safe_def)
  qed
next
  assume a: "vanity_input steam_url \<and>
    (key_missing api_key \<or> call_failed (resolve (last_segment (normalized steam_url))))"
  let ?s = "normalized steam_url"
  from a have np: "\<not> py_in ''/profiles/'' ?s" and id: "py_in ''/id/'' ?s"
    by (simp_all add: vanity_input_def)
  have nd: "\<not> py_isdigit ?s"
    using id isdigit_no_sub [of ?s "''/id/''"] by auto
  have body: "extract_body api_key resolve steam_url =
      (if key_missing api_key then Inr None else vanity_lookup (resolve (last_segment ?s)))"
    using np id nd by (simp add: extract_body_def Let_def)
  show "extract_account_id_safe api_key resolve steam_url = Inr None"
  proof (cases "key_missing api_key")
    case True
    with body show ?thesis by (simp add: extract_account_id_safe_def)
  next
    case False
    with a have "call_failed (resolve (last_segment ?s))" by simp
    from vanity_lookup_failed [OF this] body False show ?thesis
      by (intro safe_of_body) auto
  qed
next
  assume u: "unparseable steam_url"
  let ?s = "normalized steam_url"
  show "extract_account_id_safe api_key resolve steam_url = Inr None"
  proof (cases "py_in ''/profiles/'' ?s")
    case True
    then have nd: "\<not> py_isdigit ?s"
      using isdigit_no_sub [of ?s "''/profiles/''"] by auto
    from u True have "py_int (last_segment ?s) = None" by (simp add: unparseable_def)
    with True nd have "extract_body api_key resolve steam_url = Inl ValueError"
      by (simp add: extract_body_def Let_def)
    then show ?thesis by (simp add: extract_account_id_safe_def)
  next
    case False
    with u have ni: "\<not> py_in ''/id/'' ?s" and d: "py_isdigit ?s \<longrightarrow> py_int ?s = None"
      by (auto simp: unparseable_def Let_def split: if_splits)
    from False ni d
    have "extract_body api_key resolve steam_url = Inr None
        \<or> extract_body api_key resolve steam_url = Inl ValueError"
      by (auto simp: extract_body_def Let_def)
    then show ?thesis by (auto simp: extract_account_id_safe_def)
  qed
qed

theorem failure_is_no_identifier_witness:
  "vanity_input ''https://steamcommunity.com/id/gaben/''
   \<and> call_failed (Response 503 BadBody)
   \<and> extract_account_id_safe (Some ''key'') (\<lambda>v. Response 503 BadBody)
        ''https://steamcommunity.com/id/gaben/'' = Inr None
   \<and> call_failed (Response 200 (Body (JObj [(''response'', JObj [(''success'', JInt 42)])])))
   \<and> extract_account_id_safe (Some ''key'')
        (\<lambda>v. Response 200 (Body (JObj [(''response'', JObj [(''success'', JInt 42)])])))
        ''https://steamcommunity.com/id/gaben/'' = Inr None
   \<and> unparseable ''gaben''
   \<and> extract_account_id_safe (Some ''key'') (\<lambda>v. TimedOut) ''gaben'' = Inr None
   \<and> unparseable ''https://steamcommunity.com/profiles/gaben''
   \<and> extract_account_id_safe (Some ''key'') (\<lambda>v. TimedOut)
        ''https://steamcommunity.com/profiles/gaben'' = Inr None
   \<and> (\<exists>res. extract_account_id_safe (Some ''key'') (\<lambda>v. ConnectionFailed)
        ''https://steamcommunity.com/id/gaben/'' = Inr res)"
proof -
  let ?no = "Response 200 (Body (JObj [(''response'', JObj [(''success'', JInt 42)])]))"
  have v: "vanity_input ''https://steamcommunity.com/id/gaben/''"
    by (simp add: vanity_input_def normalized_def py_strip_def rstrip_slash_def
        py_isspace_def code_point_def)
  have f: "call_failed (Response 503 BadBody)" by simp
  have g: "call_failed ?no" by (simp add: body_failed_def)
  have u: "unparseable ''gaben''"
    by (simp add: unparseable_def normalized_def py_strip_def rstrip_slash_def
        py_isspace_def code_point_def py_isdigit_def isdigit_char_def is_decimal_def)
  have w: "unparseable ''https://steamcommunity.com/profiles/gaben''"
    by (simp add: unparseable_def normalized_def py_strip_def rstrip_slash_def
        py_isspace_def code_point_def last_segment_def py_int_def int_strip_def
        int_isspace_def parse_unsigned_def is_decimal_def)
  have nc: "ConnectionFailed \<noteq> Cancelled" by simp
  note t1 = failure_is_no_identifier [of "\<lambda>v. Response 503 BadBody"
      "''https://steamcommunity.com/id/gaben/''" "Some ''key''"]
  note t2 = failure_is_no_identifier [of "\<lambda>v. ?no"
      "''https://steamcommunity.com/id/gaben/''" "Some ''key''"]
  note t3 = failure_is_no_identifier [of "\<lambda>v. TimedOut" "''gaben''" "Some ''key''"]
  note t4 = failure_is_no_identifier [of "\<lambda>v. TimedOut"
      "''https://steamcommunity.com/profiles/gaben''" "Some ''key''"]
  note t5 = failure_is_no_identifier [of "\<lambda>v. ConnectionFailed"
      "''https://steamcommunity.com/id/gaben/''" "Some ''key''"]
  from t1 v f have r1: "extract_account_id_safe (Some ''key'') (\<lambda>v. Response 503 BadBody)
        ''https://steamcommunity.com/id/gaben/'' = Inr None" by blast
  from t2 v g have r2: "extract_account_id_safe (Some ''key'') (\<lambda>v. ?no)
        ''https://steamcommunity.com/id/gaben/'' = Inr None" by blast
  from t3 u have r3: "extract_account_id_safe (Some ''key'') (\<lambda>v. TimedOut) ''gaben'' = Inr None"
    by blast
  from t4 w have r4: "extract_account_id_safe (Some ''key'') (\<lambda>v. TimedOut)
        ''https://steamcommunity.com/profiles/gaben'' = Inr None" by blast
  from t5 nc have r5: "\<exists>res. extract_account_id_safe (Some ''key'') (\<lambda>v. ConnectionFailed)
        ''https://steamcommunity.com/id/gaben/'' = Inr res" by blast
  from v f r1 g r2 u r3 w r4 r5 show ?thesis by blast
qed


section \<open>Properties of the match formatter\<close>

lemma match_loop_result:
  "match_loop heroes i ms st = Inr st' \<Longrightarrow>
     wins st' = wins st + length (filter is_win ms)
   \<and> roles st' = roles st @ List.map_filter lane_name ms
   \<and> map won (lines st') = map won (lines st) @ map is_win ms
   \<and> length (lines st') = length (lines st) + length ms"
proof (induction ms arbitrary: i st)
  case Nil
  then show ?case by (simp add: List.map_filter_simps)
next
  case (Cons m ms)
  from Cons.prems obtain name where
    n: "heroes_get heroes (get_or (hero_id m) 0) = Inr name"
    by (auto split: sum.splits)
  let ?st = "\<lparr>wins = (if is_win m then wins st + 1 else wins st),
             roles = (case lane_name m of None \<Rightarrow> roles st | Some r \<Rightarrow> roles st @ [r]),
             lines = lines st @ [format_line i m name]\<rparr>"
  from Cons.prems n have "match_loop heroes (Suc i) ms ?st = Inr st'" by simp
  from Cons.IH [OF this] show ?case
    by (cases "lane_name m") (simp_all add: List.map_filter_simps format_line_def Let_def)
qed

lemma match_loop_catalog:
  "\<exists>st'. match_loop (Some (Catalog al)) i ms st = Inr st'"
  by (induction ms arbitrary: i st) auto

lemma formatter_report:
  assumes "format_matches_for_display hero_file reply cache ms = (Inr (Report h ls), cache')"
  shows "\<exists>heroes st. match_loop heroes 1 (take 10 ms) \<lparr>wins = 0, roles = [], lines = []\<rparr> = Inr st
           \<and> h = make_header (length ms) st \<and> ls = lines st \<and> ms \<noteq> []"
proof -
  from assms have ne: "ms \<noteq> []"
    by (auto simp: format_matches_for_display_def split: if_splits)
  from assms ne show ?thesis
    by (auto simp: format_matches_for_display_def split: prod.splits sum.splits)
qed

lemma formatter_counts:
  assumes "format_matches_for_display hero_file reply cache ms = (Inr (Report h ls), cache')"
  shows "total h = length ms
       \<and> shown_wins h = length (filter is_win (take 10 ms))
       \<and> shown_losses h = int (length ms) - int (length (filter is_win (take 10 ms)))
       \<and> winrate h = of_nat (length (filter is_win (take 10 ms))) / of_nat (length ms) * 100
       \<and> map won ls = map is_win (take 10 ms)
       \<and> length ls = length (take 10 ms)"
proof -
  from formatter_report [OF assms] obtain heroes st where
    l: "match_loop heroes 1 (take 10 ms) \<lparr>wins = 0, roles = [], lines = []\<rparr> = Inr st"
    and h: "h = make_header (length ms) st" and ls: "ls = lines st" and ne: "ms \<noteq> []"
    by blast
  from match_loop_result [OF l] ne show ?thesis
    by (simp add: h ls make_header_def)
qed

lemma formatter_cached:
  assumes "ms \<noteq> []" "al \<noteq> []"
  shows "\<exists>h ls. format_matches_for_display hero_file reply (Catalog al) ms
           = (Inr (Report h ls), Catalog al)"
proof -
  obtain st where "match_loop (Some (Catalog al)) 1 (take 10 ms)
      \<lparr>wins = 0, roles = [], lines = []\<rparr> = Inr st"
    using match_loop_catalog by blast
  with assms show ?thesis
    by (simp add: format_matches_for_display_def get_heroes_data_def)
qed

text \<open>
  Claim C1. The claim says that the win rate is the wins among the shown records over
  the number of shown records. The code counts the wins in \<^verbatim>\<open>matches[:10]\<close> and divides
  by \<^verbatim>\<open>len(matches)\<close>: on eleven won matches it shows ten lines, all won, and reports
  ten wins, one loss and a rate of \<open>1000 / 11\<close> per cent (printed \<^verbatim>\<open>90.9%\<close>), where
  the claim gives ten wins, no loss and \<^verbatim>\<open>100.0%\<close>.
\<close>

theorem eleven_wins_reported_with_a_loss:
  "\<exists>h ls. format_matches_for_display hero_file reply (Catalog [(1, JStr ''Axe'')])
       (replicate 11 (match_with 0 True 2))
     = (Inr (Report h ls), Catalog [(1, JStr ''Axe'')])
     \<and> length ls = 10 \<and> map won ls = replicate 10 True
     \<and> total h = 11 \<and> shown_wins h = 10 \<and> shown_losses h = 1
     \<and> winrate h = 1000 / 11"
proof -
  let ?m = "match_with 0 True 2"
  have w: "is_win ?m" by (simp add: is_win_def get_or_def match_with_def)
  have "\<exists>h ls. format_matches_for_display hero_file reply (Catalog [(1, JStr ''Axe'')])
       (replicate 11 ?m) = (Inr (Report h ls), Catalog [(1, JStr ''Axe'')])"
    by (rule formatter_cached) simp_all
  then obtain h ls where r: "format_matches_for_display hero_file reply (Catalog [(1, JStr ''Axe'')])
       (replicate 11 ?m) = (Inr (Report h ls), Catalog [(1, JStr ''Axe'')])"
    by blast
  have t: "take 10 (replicate 11 ?m) = replicate 10 ?m" by simp
  have f: "filter is_win (replicate 10 ?m) = replicate 10 ?m"
    using w by simp
  from formatter_counts [OF r] have c:
    "total h = 11" "shown_wins h = 10" "shown_losses h = 1" "winrate h = 1000 / 11"
    "map won ls = replicate 10 True" "length ls = 10"
    unfolding t f using w by simp_all
  from r c show ?thesis by blast
qed

text \<open>
  Claim C4. A record is classified as a win exactly when its player slot is below 128
  and radiant won, or its slot is 128 or more and radiant did not win (an absent slot
  reads as 0, an absent flag as false). Every report shows this classification of the
  first ten records, line by line, and counts the wins among them. For two records with
  slots 0 and 130, both with \<^verbatim>\<open>radiant_win\<close> true, the lines are a win and a loss
  and the win rate is 50 per cent, with one win and one loss.
\<close>

theorem win_classification:
  "(is_win m \<longleftrightarrow>
      (get_or (player_slot m) 0 < 128 \<and> get_or (radiant_win m) False)
    \<or> (get_or (player_slot m) 0 \<ge> 128 \<and> \<not> get_or (radiant_win m) False))
   \<and> (format_matches_for_display hero_file reply cache ms = (Inr (Report h ls), cache') \<longrightarrow>
        map won ls = map is_win (take 10 ms)
      \<and> shown_wins h = length (filter is_win (take 10 ms)))
   \<and> (player_slot a = Some 0 \<and> radiant_win a = Some True
      \<and> player_slot b = Some 130 \<and> radiant_win b = Some True
      \<and> format_matches_for_display hero_file_x reply_x cache_x [a, b]
          = (Inr (Report hx lsx), cache_y) \<longrightarrow>
        map won lsx = [True, False] \<and> winrate hx = 50
      \<and> shown_wins hx = 1 \<and> shown_losses hx = 1)"
proof (intro conjI impI)
  show "is_win m \<longleftrightarrow>
      (get_or (player_slot m) 0 < 128 \<and> get_or (radiant_win m) False)
    \<or> (get_or (player_slot m) 0 \<ge> 128 \<and> \<not> get_or (radiant_win m) False)"
    by (auto simp: is_win_def Let_def)
next
  assume "format_matches_for_display hero_file reply cache ms = (Inr (Report h ls), cache')"
  from formatter_counts [OF this] show "map won ls = map is_win (take 10 ms)"
    and "shown_wins h = length (filter is_win (take 10 ms))" by simp_all
next
  assume a: "player_slot a = Some 0 \<and> radiant_win a = Some True
      \<and> player_slot b = Some 130 \<and> radiant_win b = Some True
      \<and> format_matches_for_display hero_file_x reply_x cache_x [a, b]
          = (Inr (Report hx lsx), cache_y)"
  then have wa: "is_win a" and wb: "\<not> is_win b"
    by (simp_all add: is_win_def get_or_def)
  from a have r: "format_matches_for_display hero_file_x reply_x cache_x [a, b]
          = (Inr (Report hx lsx), cache_y)" by simp
  from formatter_counts [OF r] wa wb
  show "map won lsx = [True, False]" and "winrate hx = 50"
    and "shown_wins hx = 1" and "shown_losses hx = 1"
    by simp_all
qed

theorem win_classification_witness:
  "is_win (match_with 0 True 0) \<and> \<not> is_win (match_with 130 True 0)
   \<and> is_win (match_with 130 False 0) \<and> \<not> is_win (match_with 127 False 0)
   \<and> (\<exists>h ls. format_matches_for_display Unreadable TimedOut (Catalog [(1, JStr ''Axe'')])
          [match_with 0 True 0, match_with 130 True 0]
          = (Inr (Report h ls), Catalog [(1, JStr ''Axe'')])
        \<and> map won ls = [True, False] \<and> winrate h = 50
        \<and> shown_wins h = 1 \<and> shown_losses h = 1)"
proof -
  let ?a = "match_with 0 True 0" and ?b = "match_with 130 True 0"
  let ?c = "Catalog [(1, JStr ''Axe'')]"
  have s: "player_slot ?a = Some 0" "radiant_win ?a = Some True"
    "player_slot ?b = Some 130" "radiant_win ?b = Some True"
    by (simp_all add: match_with_def)
  have "\<exists>h ls. format_matches_for_display Unreadable TimedOut ?c [?a, ?b] = (Inr (Report h ls), ?c)"
    by (rule formatter_cached) simp_all
  then obtain h ls where
    r: "format_matches_for_display Unreadable TimedOut ?c [?a, ?b] = (Inr (Report h ls), ?c)"
    by blast
  note t = win_classification [where a = ?a and b = ?b and hx = h and lsx = ls
      and hero_file_x = Unreadable and reply_x = TimedOut and cache_x = ?c and cache_y = ?c]
  from t s r have e: "map won ls = [True, False]" "winrate h = 50"
    "shown_wins h = 1" "shown_losses h = 1"
    by blast+
  have w1: "is_win (match_with 0 True 0)"
    using win_classification [where m = "match_with 0 True 0"]
    by (simp add: match_with_def get_or_def)
  have w2: "\<not> is_win (match_with 130 True 0)"
    using win_classification [where m = "match_with 130 True 0"]
    by (simp add: match_with_def get_or_def)
  have w3: "is_win (match_with 130 False 0)"
    using win_classification [where m = "match_with 130 False 0"]
    by (simp add: match_with_def get_or_def)
  have w4: "\<not> is_win (match_with 127 False 0)"
    using win_classification [where m = "match_with 127 False 0"]
    by (simp add: match_with_def get_or_def)
  from r e have "\<exists>h ls. format_matches_for_display Unreadable TimedOut ?c [?a, ?b]
          = (Inr (Report h ls), ?c)
        \<and> map won ls = [True, False] \<and> winrate h = 50
        \<and> shown_wins h = 1 \<and> shown_losses h = 1"
    by - (rule exI [of _ h], rule exI [of _ ls], simp)
  with w1 w2 w3 w4 show ?thesis by simp
qed

subsection \<open>The tally of roles\<close>

lemma counter_add_keys:
  "map fst (counter_add x al) = (if x \<in> set (map fst al) then map fst al else map fst al @ [x])"
proof (induction al)
  case Nil
  show ?case by simp
next
  case (Cons kn al)
  obtain k n where kn: "kn = (k, n)" by (cases kn)
  show ?case
  proof (cases "k = x")
    case True
    then show ?thesis by (simp add: kn)
  next
    case False
    with Cons.IH show ?thesis by (simp add: kn)
  qed
qed

lemma counter_add_map_of:
  "map_of (counter_add x al) = (map_of al)(x \<mapsto> (case map_of al x of None \<Rightarrow> 1 | Some n \<Rightarrow> n + 1))"
  by (induction al) (auto simp: fun_eq_iff)

lemma Counter_snoc: "Counter (xs @ [x]) = counter_add x (Counter xs)"
  by (simp add: Counter_def)

lemma Counter_keys: "distinct (map fst (Counter xs)) \<and> set (map fst (Counter xs)) = set xs"
proof (induction xs rule: rev_induct)
  case Nil
  show ?case by (simp add: Counter_def)
next
  case (snoc x xs)
  then show ?case by (auto simp: Counter_snoc counter_add_keys)
qed

lemma Counter_map_of:
  "map_of (Counter xs) k = (if k \<in> set xs then Some (count_list xs k) else None)"
proof (induction xs rule: rev_induct)
  case Nil
  show ?case by (simp add: Counter_def)
next
  case (snoc x xs)
  then show ?case by (auto simp: Counter_snoc counter_add_map_of)
qed

lemma Counter_member:
  "(k, n) \<in> set (Counter xs) \<longleftrightarrow> k \<in> set xs \<and> n = count_list xs k"
proof -
  have "(k, n) \<in> set (Counter xs) \<longleftrightarrow> map_of (Counter xs) k = Some n"
    using Counter_keys [of xs] by (simp add: map_of_eq_Some_iff)
  then show ?thesis by (auto simp: Counter_map_of)
qed

lemma Counter_order:
  "map fst (Counter xs) = ks1 @ r # ks2 \<Longrightarrow>
   \<exists>pre post. xs = pre @ r # post \<and> r \<notin> set pre \<and> set pre \<subseteq> set ks1"
proof (induction xs arbitrary: ks2 rule: rev_induct)
  case Nil
  then show ?case by (simp add: Counter_def)
next
  case (snoc x xs)
  let ?ks = "map fst (Counter xs)"
  show ?case
  proof (cases "x \<in> set ?ks")
    case True
    with snoc.prems have "?ks = ks1 @ r # ks2" by (simp add: Counter_snoc counter_add_keys)
    from snoc.IH [OF this] obtain pre post where
      "xs = pre @ r # post" "r \<notin> set pre" "set pre \<subseteq> set ks1" by blast
    then have "xs @ [x] = pre @ r # (post @ [x])" by simp
    with \<open>r \<notin> set pre\<close> \<open>set pre \<subseteq> set ks1\<close> show ?thesis by blast
  next
    case False
    with snoc.prems have eq: "?ks @ [x] = ks1 @ r # ks2"
      by (simp add: Counter_snoc counter_add_keys)
    show ?thesis
    proof (cases ks2 rule: rev_cases)
      case Nil
      with eq have k: "?ks = ks1" and rx: "r = x" by simp_all
      from False Counter_keys [of xs] have "x \<notin> set xs" by simp
      moreover from k Counter_keys [of xs] have "set xs = set ks1" by simp
      ultimately show ?thesis
        using rx by - (rule exI [of _ xs], rule exI [of _ "[]"], simp)
    next
      case (snoc ks2' y)
      with eq have "?ks = ks1 @ r # ks2'" by simp
      from snoc.IH [OF this] obtain pre post where
        "xs = pre @ r # post" "r \<notin> set pre" "set pre \<subseteq> set ks1" by blast
      then have "xs @ [x] = pre @ r # (post @ [x])" by simp
      with \<open>r \<notin> set pre\<close> \<open>set pre \<subseteq> set ks1\<close> show ?thesis by blast
    qed
  qed
qed

lemma max_from_split:
  "\<exists>l1 l2. best # items = l1 @ max_from best items # l2
     \<and> (\<forall>i\<in>set l1. snd i < snd (max_from best items))
     \<and> (\<forall>i\<in>set l2. snd i \<le> snd (max_from best items))"
proof (induction items arbitrary: best)
  case Nil
  show ?case by (rule exI [of _ "[]"]) simp
next
  case (Cons item items)
  show ?case
  proof (cases "snd item > snd best")
    case True
    define M where "M = max_from item items"
    have mf: "max_from best (item # items) = M" using True by (simp add: M_def)
    from Cons.IH [of item] obtain l1 l2 where
      e: "item # items = l1 @ M # l2"
      and a: "\<forall>i\<in>set l1. snd i < snd M"
      and b: "\<forall>i\<in>set l2. snd i \<le> snd M" unfolding M_def by blast
    have "item \<in> set (l1 @ M # l2)" unfolding e [symmetric] by simp
    with a b have "snd item \<le> snd M" by auto
    with True have sb: "snd best < snd M" by simp
    have eq: "best # item # items = (best # l1) @ M # l2" unfolding e by simp
    from sb a have a': "\<forall>i\<in>set (best # l1). snd i < snd M" by simp
    from eq a' b show ?thesis unfolding mf by blast
  next
    case False
    define M where "M = max_from best items"
    have mf: "max_from best (item # items) = M" using False by (simp add: M_def)
    from Cons.IH [of best] obtain l1 l2 where
      e: "best # items = l1 @ M # l2"
      and a: "\<forall>i\<in>set l1. snd i < snd M"
      and b: "\<forall>i\<in>set l2. snd i \<le> snd M" unfolding M_def by blast
    show ?thesis
    proof (cases l1)
      case Nil
      with e have m: "M = best" and l2: "l2 = items" by simp_all
      have eq: "best # item # items = [] @ M # (item # items)" by (simp add: m)
      from False b have b': "\<forall>i\<in>set (item # items). snd i \<le> snd M" by (simp add: m l2)
      have a': "\<forall>i\<in>set ([] :: ('a \<times> nat) list). snd i < snd M" by simp
      from eq a' b' show ?thesis unfolding mf by blast
    next
      case (Cons c l1')
      with e have c: "c = best" and e': "items = l1' @ M # l2" by simp_all
      from a Cons c have sb: "snd best < snd M" by simp
      with False have si: "snd item < snd M" by simp
      have eq: "best # item # items = (best # item # l1') @ M # l2"
        by (subst e') simp
      from a Cons sb si have a': "\<forall>i\<in>set (best # item # l1'). snd i < snd M" by simp
      from eq a' b show ?thesis unfolding mf by blast
    qed
  qed
qed

lemma find_first:
  "(\<forall>x\<in>set pre. \<not> P x) \<Longrightarrow> P r \<Longrightarrow> List.find P (pre @ r # post) = Some r"
  by (induction pre) auto

lemma most_common_first_mode:
  assumes "rs \<noteq> []"
  shows "\<exists>r. most_common_1 (Counter rs) = [(r, count_list rs r)] \<and> first_mode rs = Some r"
proof -
  from assms Counter_keys [of rs] have "Counter rs \<noteq> []" by auto
  then obtain item items where c: "Counter rs = item # items" by (cases "Counter rs") auto
  obtain r n where m: "max_from item items = (r, n)" by (cases "max_from item items")
  from max_from_split [of item items] c m obtain l1 l2 where
    e: "Counter rs = l1 @ (r, n) # l2"
    and a: "\<forall>i\<in>set l1. snd i < n"
    and b: "\<forall>i\<in>set l2. snd i \<le> n" by auto
  from e have "(r, n) \<in> set (Counter rs)" by simp
  then have r: "r \<in> set rs" and n: "n = count_list rs r" by (simp_all add: Counter_member)
  have le: "count_list rs k \<le> n" if "k \<in> set rs" for k
  proof -
    from that have "(k, count_list rs k) \<in> set (Counter rs)" by (simp add: Counter_member)
    with e a b show ?thesis by auto
  qed
  then have mode: "is_mode rs r" by (simp add: is_mode_def list_all_iff n)
  from e have "map fst (Counter rs) = map fst l1 @ r # map fst l2" by simp
  from Counter_order [OF this] obtain pre post where
    p: "rs = pre @ r # post" "r \<notin> set pre" "set pre \<subseteq> set (map fst l1)" by blast
  have "\<not> is_mode rs k" if "k \<in> set pre" for k
  proof -
    from that p(3) obtain j where j: "(k, j) \<in> set l1" by auto
    with e have "(k, j) \<in> set (Counter rs)" by simp
    then have "j = count_list rs k" by (simp add: Counter_member)
    with j a have lt: "count_list rs k < count_list rs r" by (auto simp: n)
    show ?thesis
    proof
      assume "is_mode rs k"
      with r have "count_list rs r \<le> count_list rs k"
        by (simp add: is_mode_def list_all_iff)
      with lt show False by simp
    qed
  qed
  with mode have "List.find (is_mode rs) (pre @ r # post) = Some r"
    by (intro find_first) auto
  with p(1) have "first_mode rs = Some r" by (simp add: first_mode_def)
  with c m n show ?thesis by (simp add: most_common_1_def)
qed

lemma main_role_of_roles:
  "main_role (make_header k st) =
     map_option (\<lambda>r. (r, count_list (roles st) r, length (roles st))) (first_mode (roles st))"
proof (cases "roles st = []")
  case True
  then show ?thesis by (simp add: make_header_def first_mode_def)
next
  case False
  from most_common_first_mode [OF this] obtain r where
    "most_common_1 (Counter (roles st)) = [(r, count_list (roles st) r)]"
    "first_mode (roles st) = Some r" by blast
  with False show ?thesis by (simp add: make_header_def)
qed

text \<open>
  Claim C7. The lane codes 1, 2, 3, 4 and 5 are tallied as Safe Lane, Mid Lane,
  Off Lane, Support and Support, and no other code is tallied (an absent code reads as
  0). In every report the main role is the first mode of the tally of the first ten
  records: the role met first among those with the greatest count. It is shown with
  its count and the length of the tally, not the number of records; with an empty
  tally no role is shown.
\<close>

theorem main_role_is_first_mode:
  "(lane_name m =
      (if get_or (lane_role m) 0 = 1 then Some ''Safe Lane''
       else if get_or (lane_role m) 0 = 2 then Some ''Mid Lane''
       else if get_or (lane_role m) 0 = 3 then Some ''Off Lane''
       else if get_or (lane_role m) 0 \<in> {4, 5} then Some ''Support''
       else None))
   \<and> (format_matches_for_display hero_file reply cache ms = (Inr (Report h ls), cache') \<longrightarrow>
        main_role h =
          map_option (\<lambda>r. (r, count_list (tallied_roles ms) r, length (tallied_roles ms)))
            (first_mode (tallied_roles ms)))"
proof (intro conjI impI)
  show "lane_name m =
      (if get_or (lane_role m) 0 = 1 then Some ''Safe Lane''
       else if get_or (lane_role m) 0 = 2 then Some ''Mid Lane''
       else if get_or (lane_role m) 0 = 3 then Some ''Off Lane''
       else if get_or (lane_role m) 0 \<in> {4, 5} then Some ''Support''
       else None)"
    by (simp add: lane_name_def Let_def)
next
  assume "format_matches_for_display hero_file reply cache ms = (Inr (Report h ls), cache')"
  from formatter_report [OF this] obtain heroes st where
    l: "match_loop heroes 1 (take 10 ms) \<lparr>wins = 0, roles = [], lines = []\<rparr> = Inr st"
    and h: "h = make_header (length ms) st" by blast
  from match_loop_result [OF l] have "roles st = tallied_roles ms"
    by (simp add: tallied_roles_def)
  with h show "main_role h =
      map_option (\<lambda>r. (r, count_list (tallied_roles ms) r, length (tallied_roles ms)))
        (first_mode (tallied_roles ms))"
    by (simp add: main_role_of_roles)
qed

theorem main_role_is_first_mode_witness:
  "\<exists>h ls. format_matches_for_display Unreadable TimedOut (Catalog [(1, JStr ''Axe'')])
       (map (match_with 0 True) [2, 1, 1, 2, 7])
     = (Inr (Report h ls), Catalog [(1, JStr ''Axe'')])
     \<and> length ls = 5
     \<and> tallied_roles (map (match_with 0 True) [2, 1, 1, 2, 7])
         = [''Mid Lane'', ''Safe Lane'', ''Safe Lane'', ''Mid Lane'']
     \<and> main_role h = Some (''Mid Lane'', 2, 4)"
proof -
  let ?ms = "map (match_with 0 True) [2, 1, 1, 2, 7]"
  let ?c = "Catalog [(1, JStr ''Axe'')]"
  have "\<exists>h ls. format_matches_for_display Unreadable TimedOut ?c ?ms = (Inr (Report h ls), ?c)"
    by (rule formatter_cached) simp_all
  then obtain h ls where
    r: "format_matches_for_display Unreadable TimedOut ?c ?ms = (Inr (Report h ls), ?c)"
    by blast
  have t: "tallied_roles ?ms = [''Mid Lane'', ''Safe Lane'', ''Safe Lane'', ''Mid Lane'']"
    by (simp add: tallied_roles_def List.map_filter_simps lane_name_def match_with_def get_or_def)
  have f: "first_mode [''Mid Lane'', ''Safe Lane'', ''Safe Lane'', ''Mid Lane''] = Some ''Mid Lane''"
    by (simp add: first_mode_def is_mode_def)
  from main_role_is_first_mode [where ms = ?ms and h = h and ls = ls and cache = ?c
      and cache' = ?c and hero_file = Unreadable and reply = TimedOut] r
  have "main_role h =
      map_option (\<lambda>r. (r, count_list (tallied_roles ?ms) r, length (tallied_roles ?ms)))
        (first_mode (tallied_roles ?ms))"
    by blast
  then have m: "main_role h = Some (''Mid Lane'', 2, 4)"
    unfolding t f by simp
  from formatter_counts [OF r] have "length ls = 5" by simp
  with r t m show ?thesis by blast
qed

section \<open>Properties of the hero catalog\<close>

text \<open>
  Claim C9. The claim says that the loader returns a dictionary on every path. With an
  empty cache, no readable hero file and a response of the stats API whose status is
  not 200 (here 500), no \<^verbatim>\<open>return\<close> is reached: the loader returns \<^verbatim>\<open>None\<close>, and
  the formatter, which calls \<^verbatim>\<open>heroes.get\<close> on the result for its first record,
  raises \<^verbatim>\<open>AttributeError\<close>. The handler of the same block does return an empty
  dictionary when the request fails.
\<close>

theorem loader_returns_none_on_bad_status:
  "get_heroes_data Unreadable (Response 500 body) (Catalog []) = (Inr None, Catalog [])
   \<and> format_matches_for_display Unreadable (Response 500 body) (Catalog []) (m # ms)
       = (Inl AttributeError, Catalog [])
   \<and> get_heroes_data Unreadable ConnectionFailed (Catalog [])
       = (Inr (Some (Catalog [])), Catalog [])"
  by (simp add: get_heroes_data_def heroes_from_api_def format_matches_for_display_def)


section \<open>Properties of the benchmark analyzer\<close>

lemma metric_lines_metric: "l \<in> set (metric_lines bench k) \<Longrightarrow> metric l = k"
  by (auto simp: metric_lines_def sample_line_def Let_def split: option.splits if_splits)

lemma filter_concat_key:
  assumes "distinct ks" "k \<in> set ks" "\<And>k' l. l \<in> set (f k') \<Longrightarrow> g l = k'"
  shows "filter (\<lambda>l. g l = k) (concat (map f ks)) = f k"
  using assms(1,2)
proof (induction ks)
  case Nil
  then show ?case by simp
next
  case (Cons a ks)
  have same: "filter (\<lambda>l. g l = k) (f k) = f k"
    using assms(3) by (simp add: filter_id_conv)
  have other: "filter (\<lambda>l. g l = k) (f k') = []" if "k' \<noteq> k" for k'
    using assms(3) that by (auto simp: filter_empty_conv)
  have none: "filter (\<lambda>l. g l = k) (concat (map f ks)) = []" if "k \<notin> set ks"
    using that assms(3) by (auto simp: filter_empty_conv)
  show ?case
  proof (cases "a = k")
    case True
    with Cons.prems have "k \<notin> set ks" by simp
    with True same none show ?thesis by simp
  next
    case False
    with Cons.prems have "k \<in> set ks" "distinct ks" by simp_all
    with Cons.IH other [OF False] show ?thesis by simp
  qed
qed

lemma analysis_lines_of_metric:
  assumes "metric_key \<in> set metrics"
  shows "filter (\<lambda>l. metric l = metric_key) (analysis_lines bench) = metric_lines bench metric_key"
  unfolding analysis_lines_def
proof (rule filter_concat_key)
  show "distinct metrics" by (simp add: metrics_def)
  show "metric_key \<in> set metrics" by (rule assms)
  show "\<And>k' l. l \<in> set (metric_lines bench k') \<Longrightarrow> metric l = k'"
    by (rule metric_lines_metric)
qed

text \<open>
  Claim C6. For a recognized metric key whose list in the input has at least six
  samples, the index \<open>min(4, length - 1)\<close> is 4 and the analysis holds one line for the
  key, made of the sample at index 4. For a recognized key that is absent from the
  input, or whose list has fewer than six samples, the analysis holds no line for the
  key; the analysis of typed samples cannot raise. A list of six selects index 4, a list
  of three is skipped.
\<close>

theorem benchmark_sample_selection:
  assumes "metric_key \<in> set metrics"
  shows "(bench metric_key = Some data_points \<and> length data_points \<ge> 6 \<longrightarrow>
            target_index data_points = 4
          \<and> metric_lines bench metric_key = [sample_line metric_key (data_points ! 4)]
          \<and> filter (\<lambda>l. metric l = metric_key) (analysis_lines bench)
              = [sample_line metric_key (data_points ! 4)])
       \<and> (bench metric_key = None
          \<or> (bench metric_key = Some data_points \<and> length data_points < 6) \<longrightarrow>
            metric_lines bench metric_key = []
          \<and> filter (\<lambda>l. metric l = metric_key) (analysis_lines bench) = [])"
proof (intro conjI impI)
  assume a: "bench metric_key = Some data_points \<and> length data_points \<ge> 6"
  then show t: "target_index data_points = 4" by (simp add: target_index_def)
  from a have "data_points \<noteq> []" by auto
  with a t show m: "metric_lines bench metric_key = [sample_line metric_key (data_points ! 4)]"
    by (simp add: metric_lines_def)
  with analysis_lines_of_metric [OF assms, of bench]
  show "filter (\<lambda>l. metric l = metric_key) (analysis_lines bench)
      = [sample_line metric_key (data_points ! 4)]" by simp
next
  assume a: "bench metric_key = None
      \<or> (bench metric_key = Some data_points \<and> length data_points < 6)"
  then show m: "metric_lines bench metric_key = []"
    by (auto simp: metric_lines_def)
  with analysis_lines_of_metric [OF assms, of bench]
  show "filter (\<lambda>l. metric l = metric_key) (analysis_lines bench) = []" by simp
qed

theorem benchmark_sample_selection_witness:
  "''gold_per_min'' \<in> set metrics \<and> ''xp_per_min'' \<in> set metrics
   \<and> ''tower_damage'' \<in> set metrics
   \<and> filter (\<lambda>l. metric l = ''gold_per_min'')
       (analysis_lines
         [''gold_per_min'' \<mapsto>
            replicate 4 \<lparr>percentile = Some (1 / 10), val = Some 100\<rparr>
              @ [\<lparr>percentile = Some (85 / 100), val = Some 612\<rparr>,
                 \<lparr>percentile = Some (99 / 100), val = Some 900\<rparr>],
          ''xp_per_min'' \<mapsto> replicate 3 \<lparr>percentile = Some (1 / 10), val = Some 100\<rparr>])
     = [\<lparr>metric = ''gold_per_min'', rated = Excellent, shown_value = 612,
         shown_percentile = 85 / 100\<rparr>]
   \<and> filter (\<lambda>l. metric l = ''xp_per_min'')
       (analysis_lines
         [''gold_per_min'' \<mapsto>
            replicate 4 \<lparr>percentile = Some (1 / 10), val = Some 100\<rparr>
              @ [\<lparr>percentile = Some (85 / 100), val = Some 612\<rparr>,
                 \<lparr>percentile = Some (99 / 100), val = Some 900\<rparr>],
          ''xp_per_min'' \<mapsto> replicate 3 \<lparr>percentile = Some (1 / 10), val = Some 100\<rparr>])
     = []
   \<and> filter (\<lambda>l. metric l = ''tower_damage'')
       (analysis_lines
         [''gold_per_min'' \<mapsto>
            replicate 4 \<lparr>percentile = Some (1 / 10), val = Some 100\<rparr>
              @ [\<lparr>percentile = Some (85 / 100), val = Some 612\<rparr>,
                 \<lparr>percentile = Some (99 / 100), val = Some 900\<rparr>],
          ''xp_per_min'' \<mapsto> replicate 3 \<lparr>percentile = Some (1 / 10), val = Some 100\<rparr>])
     = []
   \<and> analysis_lines
       [''gold_per_min'' \<mapsto>
          replicate 4 \<lparr>percentile = Some (1 / 10), val = Some 100\<rparr>
            @ [\<lparr>percentile = Some (85 / 100), val = Some 612\<rparr>,
               \<lparr>percentile = Some (99 / 100), val = Some 900\<rparr>],
        ''xp_per_min'' \<mapsto> replicate 3 \<lparr>percentile = Some (1 / 10), val = Some 100\<rparr>]
     = [\<lparr>metric = ''gold_per_min'', rated = Excellent, shown_value = 612,
         shown_percentile = 85 / 100\<rparr>]"
proof -
  let ?lo = "\<lparr>percentile = Some (1 / 10 :: rat), val = Some (100 :: rat)\<rparr>"
  let ?mid = "\<lparr>percentile = Some (85 / 100 :: rat), val = Some (612 :: rat)\<rparr>"
  let ?hi = "\<lparr>percentile = Some (99 / 100 :: rat), val = Some (900 :: rat)\<rparr>"
  let ?six = "replicate 4 ?lo @ [?mid, ?hi]" and ?three = "replicate 3 ?lo"
  let ?bench = "[''gold_per_min'' \<mapsto> ?six, ''xp_per_min'' \<mapsto> ?three]"
  have g: "''gold_per_min'' \<in> set metrics" and x: "''xp_per_min'' \<in> set metrics"
    and t: "''tower_damage'' \<in> set metrics"
    by (simp_all add: metrics_def)
  have bg: "?bench ''gold_per_min'' = Some ?six \<and> length ?six \<ge> 6" by simp
  have bx: "?bench ''xp_per_min'' = None
      \<or> (?bench ''xp_per_min'' = Some ?three \<and> length ?three < 6)" by simp
  have bt: "?bench ''tower_damage'' = None
      \<or> (?bench ''tower_damage'' = Some ?three \<and> length ?three < 6)" by simp
  from benchmark_sample_selection [OF g, of ?bench ?six] bg
  have lg: "filter (\<lambda>l. metric l = ''gold_per_min'') (analysis_lines ?bench)
      = [sample_line ''gold_per_min'' (?six ! 4)]"
    by blast
  from benchmark_sample_selection [OF x, of ?bench ?three] bx
  have lx: "filter (\<lambda>l. metric l = ''xp_per_min'') (analysis_lines ?bench) = []" by blast
  from benchmark_sample_selection [OF t, of ?bench ?three] bt
  have lt: "filter (\<lambda>l. metric l = ''tower_damage'') (analysis_lines ?bench) = []" by blast
  have a: "analysis_lines ?bench
      = [\<lparr>metric = ''gold_per_min'', rated = Excellent, shown_value = 612,
          shown_percentile = 85 / 100\<rparr>]"
    by (simp add: analysis_lines_def metrics_def metric_lines_def target_index_def
        sample_line_def get_or_def rate_def nth_append)
  have s: "sample_line ''gold_per_min'' (?six ! 4)
      = \<lparr>metric = ''gold_per_min'', rated = Excellent, shown_value = 612,
          shown_percentile = 85 / 100\<rparr>"
    by (simp add: sample_line_def get_or_def rate_def nth_append)
  from lg have fg: "filter (\<lambda>l. metric l = ''gold_per_min'') (analysis_lines ?bench)
      = [\<lparr>metric = ''gold_per_min'', rated = Excellent, shown_value = 612,
          shown_percentile = 85 / 100\<rparr>]"
    unfolding s .
  from g x t fg lx lt a show ?thesis by blast
qed

section \<open>Properties of the score storage\<close>

text \<open>
  Claim C10. When the id has no row, \<^verbatim>\<open>update_score\<close> leaves the table as it was,
  and when no database call raises it returns \<^verbatim>\<open>True\<close>, the value it also returns
  after changing the score of an existing row. It returns \<^verbatim>\<open>False\<close> exactly when
  the body of its \<^verbatim>\<open>try\<close> block raises, which happens exactly when a database call
  fails or the engine refuses the sum for an existing row.
\<close>

theorem update_score_without_row:
  "(users telegram_id = None \<longrightarrow>
        snd (update_score fault add users telegram_id points) = users
      \<and> (fault = NoFault \<longrightarrow> update_score fault add users telegram_id points = (True, users)))
   \<and> (fault = NoFault \<and> users telegram_id = Some row \<and> add (score row) points = Some s \<longrightarrow>
        update_score fault add users telegram_id points
          = (True, users(telegram_id \<mapsto> row\<lparr>score := s\<rparr>)))
   \<and> (fst (update_score fault add users telegram_id points) = False \<longleftrightarrow>
        (\<exists>e. fst (update_score_body fault add users telegram_id points) = Inl e))
   \<and> ((\<exists>e. fst (update_score_body fault add users telegram_id points) = Inl e) \<longleftrightarrow>
        fault \<noteq> NoFault
      \<or> (\<exists>row. users telegram_id = Some row \<and> add (score row) points = None))"
proof (intro conjI impI)
  assume n: "users telegram_id = None"
  then show "snd (update_score fault add users telegram_id points) = users"
    by (simp add: update_score_def update_score_body_def)
  show "update_score fault add users telegram_id points = (True, users)" if "fault = NoFault"
    using n that by (simp add: update_score_def update_score_body_def)
next
  assume "fault = NoFault \<and> users telegram_id = Some row \<and> add (score row) points = Some s"
  then show "update_score fault add users telegram_id points
      = (True, users(telegram_id \<mapsto> row\<lparr>score := s\<rparr>))"
    by (simp add: update_score_def update_score_body_def)
next
  show "fst (update_score fault add users telegram_id points) = False \<longleftrightarrow>
      (\<exists>e. fst (update_score_body fault add users telegram_id points) = Inl e)"
    by (cases "update_score_body fault add users telegram_id points")
      (auto simp: update_score_def split: sum.splits)
next
  show "(\<exists>e. fst (update_score_body fault add users telegram_id points) = Inl e) \<longleftrightarrow>
      fault \<noteq> NoFault
    \<or> (\<exists>row. users telegram_id = Some row \<and> add (score row) points = None)"
    by (cases fault; cases "users telegram_id")
      (auto simp: update_score_body_def split: option.splits)
qed

theorem update_score_without_row_witness:
  "update_score NoFault (\<lambda>a b. Some (a + b)) [1 \<mapsto> \<lparr>account_id = 39734273, score = 10\<rparr>] 2 5
     = (True, [1 \<mapsto> \<lparr>account_id = 39734273, score = 10\<rparr>])
   \<and> update_score NoFault (\<lambda>a b. Some (a + b)) [1 \<mapsto> \<lparr>account_id = 39734273, score = 10\<rparr>] 1 5
     = (True, [1 \<mapsto> \<lparr>account_id = 39734273, score = 15\<rparr>])
   \<and> fst (update_score ConnectFails (\<lambda>a b. Some (a + b))
        [1 \<mapsto> \<lparr>account_id = 39734273, score = 10\<rparr>] 2 5) = False"
proof -
  let ?add = "\<lambda>a b :: int. Some (a + b)"
  let ?row = "\<lparr>account_id = 39734273, score = 10\<rparr>"
  let ?users = "[(1::int) \<mapsto> ?row]"
  have n: "?users 2 = None" by simp
  from update_score_without_row [of ?users 2 NoFault ?add 5] n
  have r1: "update_score NoFault ?add ?users 2 5 = (True, ?users)" by blast
  have p: "NoFault = NoFault \<and> ?users 1 = Some ?row \<and> ?add (score ?row) 5 = Some 15" by simp
  from update_score_without_row [of ?users 1 NoFault ?add 5 ?row 15] p
  have "update_score NoFault ?add ?users 1 5 = (True, ?users(1 \<mapsto> ?row\<lparr>score := 15\<rparr>))"
    by blast
  then have r2: "update_score NoFault ?add ?users 1 5
      = (True, [1 \<mapsto> \<lparr>account_id = 39734273, score = 15\<rparr>])" by simp
  have "\<exists>e. fst (update_score_body ConnectFails ?add ?users 2 5) = Inl e"
    by (simp add: update_score_body_def)
  with update_score_without_row [of ?users 2 ConnectFails ?add 5]
  have r3: "fst (update_score ConnectFails ?add ?users 2 5) = False" by blast
  from r1 r2 r3 show ?thesis by blast
qed

end
